theory Spec2Isabelle
  imports Main "HOL-Library.Word"
begin

section \<open>OfflineReporter (src/mdtools/openmm/reporter.py)\<close>

text \<open>
  A shallow embedding of the class \<open>OfflineReporter\<close>. The object is a record of its
  attributes, every method takes the object and returns the updated one, and a raised
  exception is a value: a method returns the exception (if any) together with the object
  as the exception leaves it, since Python keeps every assignment made before the raise.

  Floating-point numbers (coordinates, the threshold, RMSD and fraction values) are
  carried, compared by nobody and computed only by external libraries: their type is the
  parameter \<open>'f\<close>.
\<close>

subsection \<open>Values\<close>

datatype error =
    ValueError string
  | IndexError
  | AttributeError
  | AssertionError
  | ZeroDivisionError
  | IOError
  | LibraryError string

type_synonym int16 = "16 word"
type_synonym int32 = "32 word"

text \<open>A position array of shape (m, 3): one triple per atom.\<close>

type_synonym 'f vec3 = "'f \<times> 'f \<times> 'f"
type_synonym 'f frame = "'f vec3 list"

text \<open>
  A three-dimensional numpy array: its shape and its entries as nested lists, so that an
  axis of size 0 keeps the sizes of the axes after it.
\<close>

record 'f ndarray3 =
  dims :: "nat \<times> nat \<times> nat"
  elems :: "'f list list list"

text \<open>
  The sparse contact matrix, in the form \<open>tocoo()\<close> gives it: the row and the column
  index of every stored entry, as scipy's 32-bit index arrays.
\<close>

record coo_matrix =
  coo_row :: "int32 list"
  coo_col :: "int32 list"

text \<open>
  \<open>self._point_cloud_data\<close> is a Python list of frames while frames are collected, and
  the numpy array that \<open>np.transpose\<close> returned once a flush has begun.
\<close>

datatype 'f pc_buffer = PcList "'f frame list" | PcArray "'f ndarray3"

subsection \<open>Constructor arguments and the object\<close>

record 'f config =
  base_name :: string
  report_interval :: int
  frames_per_h5 :: int
  wrap_pdb_file :: "string option"
  reference_pdb_file :: "string option"
  openmm_selection :: "string list"
  mda_selection :: string
  threshold :: 'f
  contact_map :: bool
  point_cloud :: bool
  fraction_of_contacts :: bool

text \<open>
  The attributes copied from the constructor's arguments (lines 63 to 73) are never
  assigned again: they are the field \<open>cfg\<close>, under the attributes' names (the argument
  \<open>file\<close> is \<open>base_name\<close>, \<open>reportInterval\<close> is \<open>report_interval\<close>). An attribute that
  has not been assigned is \<open>None\<close>; for \<open>reference_positions\<close> and \<open>wrap\<close>, which the
  source itself sets to Python's None, \<open>None\<close> is that value.
\<close>

record 'f reporter =
  cfg :: "'f config"
  file_idx :: int
  reference_positions :: "'f frame option"
  reference_contact_map :: "coo_matrix option"
  wrap :: "('f frame \<Rightarrow> error + 'f frame) option"
  num_frames :: int
  rows :: "int16 list list option"
  cols :: "int16 list list option"
  rmsd :: "'f list option"
  fraction_of_contacts_data :: "'f list option"
  point_cloud_data :: "'f pc_buffer option"

subsection \<open>The libraries the class calls\<close>

text \<open>
  numpy, MDAnalysis and \<open>mdtools.analysis.order_parameters\<close> are not part of the file:
  what they compute is a parameter of the model, and each call may raise.
  \<^item> \<open>astype_float32\<close>: \<open>.astype(np.float32)\<close> on one number;
  \<^item> \<open>contact_matrix\<close>: \<open>distances.contact_matrix(positions, threshold, returntype="sparse")\<close>;
  \<^item> \<open>rms_rmsd\<close>: \<open>rms.rmsd(positions, reference, superposition=True)\<close>;
  \<^item> \<open>fraction_of_contacts_fn\<close>: \<open>fraction_of_contacts(contact_map, reference_contact_map)\<close>;
  \<^item> \<open>universe_positions\<close>: \<open>MDAnalysis.Universe(path).select_atoms(selection).positions.copy()\<close>;
  \<^item> \<open>wrap_nsp10_16\<close>: the closure that \<open>wrap(atoms)\<close> returns (lines 20 to 36), for the
    atoms \<open>MDAnalysis.Universe(path).select_atoms(selection)\<close>.
\<close>

record 'f extern =
  astype_float32 :: "'f \<Rightarrow> 'f"
  contact_matrix :: "'f frame \<Rightarrow> 'f \<Rightarrow> error + coo_matrix"
  rms_rmsd :: "'f frame \<Rightarrow> 'f frame option \<Rightarrow> error + 'f"
  fraction_of_contacts_fn :: "coo_matrix \<Rightarrow> coo_matrix \<Rightarrow> error + 'f"
  universe_positions :: "string \<Rightarrow> string \<Rightarrow> error + 'f frame"
  wrap_nsp10_16 :: "string \<Rightarrow> string \<Rightarrow> error + ('f frame \<Rightarrow> error + 'f frame)"

subsection \<open>The simulation and its state, as \<open>report\<close> reads them\<close>

record atom =
  atom_index :: nat
  atom_name :: string

record simulation =
  currentStep :: int
  topology_atoms :: "atom list"

text \<open>\<open>state.getPositions().value_in_unit(u.angstrom)\<close>: one triple per atom of the system.\<close>

record 'f sim_state =
  getPositions_angstrom :: "'f vec3 list"

subsection \<open>The output container\<close>

text \<open>
  An HDF5 file is the slots written to it; the file system maps a path to a file.
\<close>

record 'f h5_file =
  contact_map_rows_slot :: "int16 list list option"
  contact_map_cols_slot :: "int16 list list option"
  point_cloud_slot :: "'f ndarray3 option"
  rmsd_slot :: "'f list option"
  fraction_of_contacts_slot :: "'f list option"

type_synonym 'f filesystem = "string \<Rightarrow> 'f h5_file option"

definition empty_h5 :: "'f h5_file" where
  "empty_h5 = \<lparr>contact_map_rows_slot = None, contact_map_cols_slot = None,
     point_cloud_slot = None, rmsd_slot = None, fraction_of_contacts_slot = None\<rparr>"

text \<open>
  Modelled from the spec: \<open>write_contact_map\<close> of \<open>mdtools.writers\<close> is not in the
  source. The spec (sections 4.5 and 6) has the flush serialize each buffer into its own
  named slot of the container: here the row indices and the column indices, one
  variable-length entry per frame.
\<close>

definition write_contact_map ::
  "int16 list list \<Rightarrow> int16 list list \<Rightarrow> 'f h5_file \<Rightarrow> 'f h5_file" where
  "write_contact_map rs cs h =
     h\<lparr>contact_map_rows_slot := Some rs, contact_map_cols_slot := Some cs\<rparr>"

text \<open>
  Modelled from the spec: \<open>write_point_cloud\<close> of \<open>mdtools.writers\<close> is not in the
  source. By the spec it stores the point-cloud data, axes [frame, coordinate, atom], in
  the point-cloud slot.
\<close>

definition write_point_cloud :: "'f ndarray3 \<Rightarrow> 'f h5_file \<Rightarrow> 'f h5_file" where
  "write_point_cloud a h = h\<lparr>point_cloud_slot := Some a\<rparr>"

text \<open>
  Modelled from the spec: \<open>write_rmsd\<close> of \<open>mdtools.writers\<close> is not in the source. By
  the spec it stores the RMSD values, one scalar per frame, in the RMSD slot.
\<close>

definition write_rmsd :: "'f list \<Rightarrow> 'f h5_file \<Rightarrow> 'f h5_file" where
  "write_rmsd v h = h\<lparr>rmsd_slot := Some v\<rparr>"

text \<open>
  Modelled from the spec: \<open>write_fraction_of_contacts\<close> of \<open>mdtools.writers\<close> is not in
  the source. By the spec it stores the fraction-of-contacts values, one scalar per frame,
  in their slot.
\<close>

definition write_fraction_of_contacts :: "'f list \<Rightarrow> 'f h5_file \<Rightarrow> 'f h5_file" where
  "write_fraction_of_contacts v h = h\<lparr>fraction_of_contacts_slot := Some v\<rparr>"

text \<open>
  Where the container raises \<open>IOError\<close> during a flush, if anywhere: this is the
  environment's choice, a parameter of \<open>report\<close>.
\<close>

datatype io_stage = AtOpen | AtContactMap | AtPointCloud | AtRmsd | AtFraction | AtClose

subsection \<open>Statements that may raise\<close>

text \<open>
  A statement maps the state to the exception raised (if any) and the state it leaves.
  \<open>andthen\<close> is the sequence of two statements, \<open>py_if\<close> an \<open>if\<close> without \<open>else\<close>.
\<close>

type_synonym 's stmt = "'s \<Rightarrow> error option \<times> 's"

definition andthen :: "'s stmt \<Rightarrow> 's stmt \<Rightarrow> 's stmt" where
  "andthen f g s = (case f s of (None, s') \<Rightarrow> g s' | (Some e, s') \<Rightarrow> (Some e, s'))"

definition py_if :: "('s \<Rightarrow> bool) \<Rightarrow> 's stmt \<Rightarrow> 's stmt" where
  "py_if b f s = (if b s then f s else (None, s))"

subsection \<open>Construction (lines 40 to 124)\<close>

definition init_batch :: "'f reporter \<Rightarrow> 'f reporter" where
  "init_batch r =
     (let r1 = r\<lparr>num_frames := 0\<rparr>;
          r2 = (if contact_map (cfg r1) then r1\<lparr>rows := Some [], cols := Some []\<rparr> else r1);
          r3 = (if reference_pdb_file (cfg r2) \<noteq> None then r2\<lparr>rmsd := Some []\<rparr> else r2);
          r4 = (if fraction_of_contacts (cfg r3)
                then r3\<lparr>fraction_of_contacts_data := Some []\<rparr> else r3)
      in if point_cloud (cfg r4) then r4\<lparr>point_cloud_data := Some (PcList [])\<rparr> else r4)"

definition compute_contact_map ::
  "'f extern \<Rightarrow> 'f reporter \<Rightarrow> 'f frame \<Rightarrow> error + coo_matrix" where
  "compute_contact_map ext r positions = contact_matrix ext positions (threshold (cfg r))"

definition init_reference_positions :: "'f extern \<Rightarrow> 'f reporter \<Rightarrow> error + 'f reporter" where
  "init_reference_positions ext r =
     (case reference_pdb_file (cfg r) of
        None \<Rightarrow> Inr (r\<lparr>reference_positions := None\<rparr>)
      | Some path \<Rightarrow>
          (case universe_positions ext path (mda_selection (cfg r)) of
             Inl e \<Rightarrow> Inl e
           | Inr p \<Rightarrow> Inr (r\<lparr>reference_positions := Some p\<rparr>)))"

definition init_reference_contact_map :: "'f extern \<Rightarrow> 'f reporter \<Rightarrow> error + 'f reporter" where
  "init_reference_contact_map ext r =
     (if \<not> fraction_of_contacts (cfg r) then Inr r
      else case reference_pdb_file (cfg r) of
        None \<Rightarrow> Inl AssertionError
      | Some path \<Rightarrow>
          (case universe_positions ext path (mda_selection (cfg r)) of
             Inl e \<Rightarrow> Inl e
           | Inr p \<Rightarrow>
               (case compute_contact_map ext r p of
                  Inl e \<Rightarrow> Inl e
                | Inr cm \<Rightarrow> Inr (r\<lparr>reference_contact_map := Some cm\<rparr>))))"

definition init_wrap :: "'f extern \<Rightarrow> 'f reporter \<Rightarrow> error + 'f reporter" where
  "init_wrap ext r =
     (case wrap_pdb_file (cfg r) of
        None \<Rightarrow> Inr (r\<lparr>wrap := None\<rparr>)
      | Some path \<Rightarrow>
          (case wrap_nsp10_16 ext path (mda_selection (cfg r)) of
             Inl e \<Rightarrow> Inl e
           | Inr w \<Rightarrow> Inr (r\<lparr>wrap := Some w\<rparr>)))"

text \<open>The object before any attribute beyond line 73 is assigned.\<close>

definition fresh :: "'f config \<Rightarrow> 'f reporter" where
  "fresh c = \<lparr>cfg = c, file_idx = 0, reference_positions = None,
     reference_contact_map = None, wrap = None, num_frames = 0, rows = None, cols = None,
     rmsd = None, fraction_of_contacts_data = None, point_cloud_data = None\<rparr>"

definition OfflineReporter_init :: "'f extern \<Rightarrow> 'f config \<Rightarrow> error + 'f reporter" where
  "OfflineReporter_init ext c =
     (if fraction_of_contacts c \<and> reference_pdb_file c = None
      then Inl (ValueError ''Computing `fraction_of_contacts` requires `refernce_pdb_file`.'')
      else if contact_map c \<and> reference_pdb_file c = None
      then Inl (ValueError ''Computing `contact_map` requires `refernce_pdb_file`.'')
      else case init_reference_positions ext (init_batch (fresh c)) of
        Inl e \<Rightarrow> Inl e
      | Inr r1 \<Rightarrow>
          (case init_reference_contact_map ext r1 of
             Inl e \<Rightarrow> Inl e
           | Inr r2 \<Rightarrow> init_wrap ext r2))"

subsection \<open>The scheduling query (lines 126 to 128)\<close>

text \<open>
  Python's \<open>%\<close> on integers takes the sign of the divisor, as \<open>mod\<close> on \<open>int\<close> does, and
  raises on a zero divisor.
\<close>

definition describeNextReport ::
  "'f reporter \<Rightarrow> simulation \<Rightarrow> error + (int \<times> bool \<times> bool \<times> bool \<times> bool \<times> unit option)" where
  "describeNextReport r sim =
     (if report_interval (cfg r) = 0 then Inl ZeroDivisionError
      else let steps = report_interval (cfg r) - currentStep sim mod report_interval (cfg r)
           in Inr (steps, True, False, False, False, None))"

subsection \<open>Collecting one frame (lines 130 to 155)\<close>

definition collect_rmsd :: "'f extern \<Rightarrow> 'f frame \<Rightarrow> 'f reporter stmt" where
  "collect_rmsd ext positions r =
     (case (case wrap r of None \<Rightarrow> Inr positions | Some w \<Rightarrow> w positions) of
        Inl e \<Rightarrow> (Some e, r)
      | Inr positions' \<Rightarrow>
          (case rms_rmsd ext positions' (reference_positions r) of
             Inl e \<Rightarrow> (Some e, r)
           | Inr v \<Rightarrow>
               (case rmsd r of
                  None \<Rightarrow> (Some AttributeError, r)
                | Some xs \<Rightarrow> (None, r\<lparr>rmsd := Some (xs @ [v])\<rparr>))))"

text \<open>\<open>.astype("int16")\<close> keeps the low 16 bits of a 32-bit index.\<close>

definition astype_int16 :: "int32 \<Rightarrow> int16" where
  "astype_int16 i = scast i"

definition append_rows :: "int16 list \<Rightarrow> 'f reporter stmt" where
  "append_rows v r =
     (case rows r of
        None \<Rightarrow> (Some AttributeError, r)
      | Some xs \<Rightarrow> (None, r\<lparr>rows := Some (xs @ [v])\<rparr>))"

definition append_cols :: "int16 list \<Rightarrow> 'f reporter stmt" where
  "append_cols v r =
     (case cols r of
        None \<Rightarrow> (Some AttributeError, r)
      | Some xs \<Rightarrow> (None, r\<lparr>cols := Some (xs @ [v])\<rparr>))"

definition collect_contact_map :: "coo_matrix \<Rightarrow> 'f reporter stmt" where
  "collect_contact_map coo =
     andthen (append_rows (map astype_int16 (coo_row coo)))
             (append_cols (map astype_int16 (coo_col coo)))"

definition collect_fraction_of_contacts :: "'f extern \<Rightarrow> coo_matrix \<Rightarrow> 'f reporter stmt" where
  "collect_fraction_of_contacts ext cm r =
     (case fraction_of_contacts_data r of
        None \<Rightarrow> (Some AttributeError, r)
      | Some xs \<Rightarrow>
          (case reference_contact_map r of
             None \<Rightarrow> (Some AttributeError, r)
           | Some ref \<Rightarrow>
               (case fraction_of_contacts_fn ext cm ref of
                  Inl e \<Rightarrow> (Some e, r)
                | Inr v \<Rightarrow> (None, r\<lparr>fraction_of_contacts_data := Some (xs @ [v])\<rparr>))))"

text \<open>A numpy array has no \<open>append\<close>.\<close>

definition collect_point_cloud :: "'f frame \<Rightarrow> 'f reporter stmt" where
  "collect_point_cloud positions r =
     (case point_cloud_data r of
        None \<Rightarrow> (Some AttributeError, r)
      | Some (PcArray a) \<Rightarrow> (Some AttributeError, r)
      | Some (PcList xs) \<Rightarrow> (None, r\<lparr>point_cloud_data := Some (PcList (xs @ [positions]))\<rparr>))"

subsection \<open>\<open>report\<close> (lines 157 to 202)\<close>

text \<open>
  Lines 158 to 164: the indices of the atoms whose name is selected, then the rows of the
  position array at those indices (numpy raises on an index beyond the array), cast to
  32-bit floats.
\<close>

definition map_vec3 :: "('f \<Rightarrow> 'f) \<Rightarrow> 'f vec3 \<Rightarrow> 'f vec3" where
  "map_vec3 g v = (case v of (x, y, z) \<Rightarrow> (g x, g y, g z))"

definition select_positions ::
  "'f extern \<Rightarrow> 'f config \<Rightarrow> simulation \<Rightarrow> 'f sim_state \<Rightarrow> error + 'f frame" where
  "select_positions ext c sim st =
     (let atom_indices =
            map atom_index
              (filter (\<lambda>a. atom_name a \<in> set (openmm_selection c)) (topology_atoms sim));
          all_positions = getPositions_angstrom st
      in if \<forall>i \<in> set atom_indices. i < length all_positions
         then Inr (map (\<lambda>i. map_vec3 (astype_float32 ext) (all_positions ! i)) atom_indices)
         else Inl IndexError)"

text \<open>Lines 166 to 171: the contact map is computed once for its two users.\<close>

definition collect_contacts :: "'f extern \<Rightarrow> 'f frame \<Rightarrow> 'f reporter stmt" where
  "collect_contacts ext positions =
     py_if (\<lambda>r. contact_map (cfg r) \<or> fraction_of_contacts (cfg r))
       (\<lambda>r. case compute_contact_map ext r positions of
               Inl e \<Rightarrow> (Some e, r)
             | Inr cm \<Rightarrow>
                 andthen
                   (py_if (\<lambda>r. contact_map (cfg r)) (collect_contact_map cm))
                   (py_if (\<lambda>r. fraction_of_contacts (cfg r))
                      (collect_fraction_of_contacts ext cm)) r)"

text \<open>Lines 166 to 177.\<close>

definition collect :: "'f extern \<Rightarrow> 'f frame \<Rightarrow> 'f reporter stmt" where
  "collect ext positions =
     andthen (collect_contacts ext positions)
    (andthen (py_if (\<lambda>r. point_cloud (cfg r)) (collect_point_cloud positions))
             (py_if (\<lambda>r. reference_positions r \<noteq> None) (collect_rmsd ext positions)))"

text \<open>
  \<open>np.transpose(a, [0, 2, 1])\<close> on an array of shape (n, b, c): the result has shape
  (n, c, b) and its entry [f, j, i] is the entry [f, i, j] of \<open>a\<close>.
\<close>

definition transpose_021 :: "'f ndarray3 \<Rightarrow> 'f ndarray3" where
  "transpose_021 a =
     (case dims a of (n, b, c) \<Rightarrow>
        \<lparr>dims = (n, c, b),
         elems = map (\<lambda>fr. map (\<lambda>j. map (\<lambda>row. row ! j) fr) [0..<c]) (elems a)\<rparr>)"

text \<open>
  Given the Python list of frames, \<open>np.transpose\<close> first makes an array of it: frames of
  one shape (m, 3) give shape (n, m, 3); no frames give a one-dimensional array, frames of
  different shapes none of three dimensions, and the permutation of three axes is
  refused.
\<close>

definition vec3_list :: "'f vec3 \<Rightarrow> 'f list" where
  "vec3_list v = (case v of (x, y, z) \<Rightarrow> [x, y, z])"

definition np_array :: "'f frame list \<Rightarrow> error + 'f ndarray3" where
  "np_array frames =
     (case frames of
        [] \<Rightarrow> Inl (ValueError ''axes do not match array'')
      | fr # rest \<Rightarrow>
          if \<forall>g \<in> set rest. length g = length fr
          then Inr \<lparr>dims = (length frames, length fr, 3),
                    elems = map (map vec3_list) frames\<rparr>
          else Inl (ValueError ''axes do not match array''))"

definition np_transpose_021 :: "'f pc_buffer \<Rightarrow> error + 'f ndarray3" where
  "np_transpose_021 buf =
     (case buf of
        PcArray a \<Rightarrow> Inr (transpose_021 a)
      | PcList frames \<Rightarrow>
          (case np_array frames of Inl e \<Rightarrow> Inl e | Inr a \<Rightarrow> Inr (transpose_021 a)))"

text \<open>
  Lines 184 to 200, the body of the \<open>with\<close> block, on the object and the open file. A
  writer at the stage where the container fails raises \<open>IOError\<close> and writes nothing.
\<close>

definition io_write ::
  "io_stage \<Rightarrow> io_stage option \<Rightarrow> ('f h5_file \<Rightarrow> 'f h5_file) \<Rightarrow> ('f reporter \<times> 'f h5_file) stmt" where
  "io_write stage fault w s =
     (case s of (r, h) \<Rightarrow>
        if fault = Some stage then (Some IOError, (r, h)) else (None, (r, w h)))"

definition flush_contact_map :: "io_stage option \<Rightarrow> ('f reporter \<times> 'f h5_file) stmt" where
  "flush_contact_map fault s =
     (case s of (r, h) \<Rightarrow>
        (case rows r of
           None \<Rightarrow> (Some AttributeError, (r, h))
         | Some rs \<Rightarrow>
             (case cols r of
                None \<Rightarrow> (Some AttributeError, (r, h))
              | Some cs \<Rightarrow> io_write AtContactMap fault (write_contact_map rs cs) (r, h))))"

definition flush_point_cloud :: "io_stage option \<Rightarrow> ('f reporter \<times> 'f h5_file) stmt" where
  "flush_point_cloud fault s =
     (case s of (r, h) \<Rightarrow>
        (case point_cloud_data r of
           None \<Rightarrow> (Some AttributeError, (r, h))
         | Some buf \<Rightarrow>
             (case np_transpose_021 buf of
                Inl e \<Rightarrow> (Some e, (r, h))
              | Inr a \<Rightarrow>
                  io_write AtPointCloud fault (write_point_cloud a)
                    (r\<lparr>point_cloud_data := Some (PcArray a)\<rparr>, h))))"

definition flush_rmsd :: "io_stage option \<Rightarrow> ('f reporter \<times> 'f h5_file) stmt" where
  "flush_rmsd fault s =
     (case s of (r, h) \<Rightarrow>
        (case rmsd r of
           None \<Rightarrow> (Some AttributeError, (r, h))
         | Some v \<Rightarrow> io_write AtRmsd fault (write_rmsd v) (r, h)))"

definition flush_fraction_of_contacts ::
  "io_stage option \<Rightarrow> ('f reporter \<times> 'f h5_file) stmt" where
  "flush_fraction_of_contacts fault s =
     (case s of (r, h) \<Rightarrow>
        (case fraction_of_contacts_data r of
           None \<Rightarrow> (Some AttributeError, (r, h))
         | Some v \<Rightarrow> io_write AtFraction fault (write_fraction_of_contacts v) (r, h)))"

definition flush_body :: "io_stage option \<Rightarrow> ('f reporter \<times> 'f h5_file) stmt" where
  "flush_body fault =
     andthen (py_if (\<lambda>s. contact_map (cfg (fst s))) (flush_contact_map fault))
    (andthen (py_if (\<lambda>s. point_cloud (cfg (fst s))) (flush_point_cloud fault))
    (andthen (py_if (\<lambda>s. reference_positions (fst s) \<noteq> None) (flush_rmsd fault))
             (py_if (\<lambda>s. fraction_of_contacts (cfg (fst s)))
                (flush_fraction_of_contacts fault))))"

text \<open>
  Lines 182 to 200: the file named by \<open>base_name\<close> is opened in mode \<open>"w"\<close>, which
  creates it or truncates it, the body runs, and the file is closed whether the body
  raised or not. An open that fails leaves the file system as it was.
\<close>

definition file_name :: "'f reporter \<Rightarrow> string" where
  "file_name r = base_name (cfg r) @ ''.h5''"

definition flush :: "io_stage option \<Rightarrow> ('f reporter \<times> 'f filesystem) stmt" where
  "flush fault s =
     (case s of (r, fs) \<Rightarrow>
        (if fault = Some AtOpen then (Some IOError, (r, fs))
         else (case flush_body fault (r, empty_h5) of
                 (Some e, (r', h)) \<Rightarrow> (Some e, (r', fs(file_name r \<mapsto> h)))
               | (None, (r', h)) \<Rightarrow>
                   ((if fault = Some AtClose then Some IOError else None),
                    (r', fs(file_name r \<mapsto> h))))))"

definition report ::
  "'f extern \<Rightarrow> io_stage option \<Rightarrow> simulation \<Rightarrow> 'f sim_state
     \<Rightarrow> ('f reporter \<times> 'f filesystem) stmt" where
  "report ext fault sim st s =
     (case s of (r, fs) \<Rightarrow>
        (case select_positions ext (cfg r) sim st of
           Inl e \<Rightarrow> (Some e, (r, fs))
         | Inr positions \<Rightarrow>
             (case collect ext positions r of
                (Some e, r1) \<Rightarrow> (Some e, (r1, fs))
              | (None, r1) \<Rightarrow>
                  let r2 = r1\<lparr>num_frames := num_frames r1 + 1\<rparr> in
                  if num_frames r2 = frames_per_h5 (cfg r2)
                  then (case flush fault (r2, fs) of
                          (Some e, s') \<Rightarrow> (Some e, s')
                        | (None, (r3, fs3)) \<Rightarrow> (None, (init_batch r3, fs3)))
                  else (None, (r2, fs)))))"

subsection \<open>The simulation loop\<close>

text \<open>
  The simulation calls \<open>report\<close> once per reporting step and stops at the first exception.
  Each call comes with the simulation, its state, and the stage at which the container
  fails during that call, if it does.
\<close>

type_synonym 'f call = "io_stage option \<times> simulation \<times> 'f sim_state"

fun run_reports ::
  "'f extern \<Rightarrow> 'f call list \<Rightarrow> ('f reporter \<times> 'f filesystem) stmt" where
  "run_reports ext [] s = (None, s)"
| "run_reports ext ((fault, sim, st) # calls) s =
     (case report ext fault sim st s of
        (None, s') \<Rightarrow> run_reports ext calls s'
      | (Some e, s') \<Rightarrow> (Some e, s'))"

subsection \<open>What the claims speak of\<close>

text \<open>
  The number of entries of a buffer, if the attribute is there and is a list.
\<close>

definition len_opt :: "'a list option \<Rightarrow> nat option" where
  "len_opt b = map_option length b"

fun pc_len :: "'f pc_buffer option \<Rightarrow> nat option" where
  "pc_len (Some (PcList xs)) = Some (length xs)"
| "pc_len (Some (PcArray a)) = None"
| "pc_len None = None"

text \<open>
  Every enabled buffer is a list of the given length: the contact-map rows and columns,
  the fraction-of-contacts values, the point-cloud frames and the RMSD values, in the
  order in which \<open>report\<close> fills them.
\<close>

definition buffers_at :: "'f reporter \<Rightarrow> nat \<Rightarrow> nat \<Rightarrow> nat \<Rightarrow> nat \<Rightarrow> bool" where
  "buffers_at r kc kf kp kr \<longleftrightarrow>
     (contact_map (cfg r) \<longrightarrow> len_opt (rows r) = Some kc \<and> len_opt (cols r) = Some kc) \<and>
     (fraction_of_contacts (cfg r) \<longrightarrow> len_opt (fraction_of_contacts_data r) = Some kf) \<and>
     (point_cloud (cfg r) \<longrightarrow> pc_len (point_cloud_data r) = Some kp) \<and>
     (reference_pdb_file (cfg r) \<noteq> None \<longrightarrow> len_opt (rmsd r) = Some kr)"

definition buffers_hold :: "'f reporter \<Rightarrow> nat \<Rightarrow> bool" where
  "buffers_hold r k = buffers_at r k k k k"

text \<open>Coordinate \<open>c\<close> (0, 1 or 2) of an atom's position.\<close>

definition coord :: "nat \<Rightarrow> 'f vec3 \<Rightarrow> 'f" where
  "coord c v = vec3_list v ! c"

text \<open>
  \<open>_init_batch\<close> tests the reference file and \<open>report\<close> the reference positions: the
  constructor makes the two agree, and it loads the reference contact map that the
  fraction of contacts needs.
\<close>

definition ref_consistent :: "'f reporter \<Rightarrow> bool" where
  "ref_consistent r \<longleftrightarrow>
     (reference_positions r = None \<longleftrightarrow> reference_pdb_file (cfg r) = None)"

text \<open>The accumulator just after a reset: counter 0 and every enabled buffer empty.\<close>

definition reset_state :: "'f reporter \<Rightarrow> bool" where
  "reset_state r \<longleftrightarrow> num_frames r = 0 \<and> buffers_hold r 0 \<and> ref_consistent r"

text \<open>
  A file holds one batch of \<open>n\<close> frames: a slot for each enabled buffer, with \<open>n\<close>
  entries, and no other slot.
\<close>

definition slots_hold :: "'f reporter \<Rightarrow> 'f h5_file \<Rightarrow> nat \<Rightarrow> bool" where
  "slots_hold r h n \<longleftrightarrow>
     len_opt (contact_map_rows_slot h) = (if contact_map (cfg r) then Some n else None) \<and>
     len_opt (contact_map_cols_slot h) = (if contact_map (cfg r) then Some n else None) \<and>
     map_option (\<lambda>a. fst (dims a)) (point_cloud_slot h)
       = (if point_cloud (cfg r) then Some n else None) \<and>
     len_opt (rmsd_slot h) = (if reference_pdb_file (cfg r) \<noteq> None then Some n else None) \<and>
     len_opt (fraction_of_contacts_slot h)
       = (if fraction_of_contacts (cfg r) then Some n else None)"

text \<open>
  A file holds the batch of an accumulator: every enabled buffer in its slot (the point
  cloud as the transposed array), and no other slot.
\<close>

definition pc_array :: "'f pc_buffer option \<Rightarrow> 'f ndarray3 option" where
  "pc_array b =
     (case b of
        None \<Rightarrow> None
      | Some buf \<Rightarrow> (case np_transpose_021 buf of Inl e \<Rightarrow> None | Inr a \<Rightarrow> Some a))"

definition batch_written :: "'f reporter \<Rightarrow> 'f h5_file \<Rightarrow> bool" where
  "batch_written r h \<longleftrightarrow>
     contact_map_rows_slot h = (if contact_map (cfg r) then rows r else None) \<and>
     contact_map_cols_slot h = (if contact_map (cfg r) then cols r else None) \<and>
     point_cloud_slot h = (if point_cloud (cfg r) then pc_array (point_cloud_data r) else None) \<and>
     rmsd_slot h = (if reference_positions r \<noteq> None then rmsd r else None) \<and>
     fraction_of_contacts_slot h
       = (if fraction_of_contacts (cfg r) then fraction_of_contacts_data r else None)"

text \<open>
  What no method assigns after construction; with the counter, what collecting a frame
  leaves alone; and what a flush only reads.
\<close>

definition fixed_part ::
  "'f reporter \<Rightarrow> 'f config \<times> int \<times> 'f frame option \<times> coo_matrix option
     \<times> ('f frame \<Rightarrow> error + 'f frame) option" where
  "fixed_part r =
     (cfg r, file_idx r, reference_positions r, reference_contact_map r, wrap r)"

definition scalar_buffers ::
  "'f reporter \<Rightarrow> int \<times> int16 list list option \<times> int16 list list option
     \<times> 'f list option \<times> 'f list option" where
  "scalar_buffers r = (num_frames r, rows r, cols r, rmsd r, fraction_of_contacts_data r)"

text \<open>\<open>keeps g f\<close>: the statement \<open>f\<close> leaves \<open>g\<close> of the state as it was, raising or not.\<close>

definition keeps :: "('s \<Rightarrow> 'a) \<Rightarrow> 's stmt \<Rightarrow> bool" where
  "keeps g f \<longleftrightarrow> (\<forall>s. g (snd (f s)) = g s)"

subsection \<open>Concrete inputs\<close>

text \<open>
  Libraries that always return: an empty cast, a contact map with the entries (0, 1) and
  (1, 0), an RMSD of 0, a fraction of 1, a reference of two atoms, and a wrapper that
  leaves the positions as they are. Numbers are integers here.
\<close>

definition ex_ext :: "int extern" where
  "ex_ext = \<lparr>astype_float32 = (\<lambda>x. x),
     contact_matrix = (\<lambda>p t. Inr \<lparr>coo_row = [0, 1], coo_col = [1, 0]\<rparr>),
     rms_rmsd = (\<lambda>p q. Inr 0),
     fraction_of_contacts_fn = (\<lambda>a b. Inr 1),
     universe_positions = (\<lambda>path sel. Inr [(0, 0, 0), (1, 0, 0)]),
     wrap_nsp10_16 = (\<lambda>path sel. Inr (\<lambda>p. Inr p))\<rparr>"

text \<open>The spec's scenario: batches of two frames, the point cloud only.\<close>

definition ex_config :: "int config" where
  "ex_config = \<lparr>base_name = ''out'', report_interval = 10, frames_per_h5 = 2,
     wrap_pdb_file = None, reference_pdb_file = None, openmm_selection = [''CA''],
     mda_selection = ''protein and name CA'', threshold = 8,
     contact_map = False, point_cloud = True, fraction_of_contacts = False\<rparr>"

text \<open>Every feature enabled, with a reference file.\<close>

definition ex_config_full :: "int config" where
  "ex_config_full = ex_config\<lparr>reference_pdb_file := Some ''ref.pdb'',
     contact_map := True, fraction_of_contacts := True\<rparr>"

text \<open>Four atoms, the second and the fourth selected; the fourth moves along x.\<close>

definition ex_sim :: simulation where
  "ex_sim = \<lparr>currentStep = 25,
     topology_atoms = [\<lparr>atom_index = 0, atom_name = ''N''\<rparr>, \<lparr>atom_index = 1, atom_name = ''CA''\<rparr>,
                       \<lparr>atom_index = 2, atom_name = ''C''\<rparr>, \<lparr>atom_index = 3, atom_name = ''CA''\<rparr>]\<rparr>"

definition ex_state :: "int \<Rightarrow> int sim_state" where
  "ex_state x = \<lparr>getPositions_angstrom = [(9, 9, 9), (0, 0, 0), (7, 7, 7), (x, 0, 0)]\<rparr>"

definition ex_call :: "int \<Rightarrow> int call" where
  "ex_call x = (None, ex_sim, ex_state x)"

text \<open>The reporters that the constructor returns for the two configurations.\<close>

definition ex_r0 :: "int reporter" where
  "ex_r0 = \<lparr>cfg = ex_config, file_idx = 0, reference_positions = None,
     reference_contact_map = None, wrap = None, num_frames = 0, rows = None, cols = None,
     rmsd = None, fraction_of_contacts_data = None, point_cloud_data = Some (PcList [])\<rparr>"

definition ex_r_full :: "int reporter" where
  "ex_r_full = \<lparr>cfg = ex_config_full, file_idx = 0,
     reference_positions = Some [(0, 0, 0), (1, 0, 0)],
     reference_contact_map = Some \<lparr>coo_row = [0, 1], coo_col = [1, 0]\<rparr>, wrap = None,
     num_frames = 0, rows = Some [], cols = Some [], rmsd = Some [],
     fraction_of_contacts_data = Some [], point_cloud_data = Some (PcList [])\<rparr>"

section \<open>Properties\<close>

subsection \<open>Rules for statements\<close>

lemma andthen_None:
  "andthen f g s = (None, s'') \<longleftrightarrow> (\<exists>s'. f s = (None, s') \<and> g s' = (None, s''))"
  by (cases "f s") (auto simp: andthen_def split: option.splits)

lemma py_if_True: "b s \<Longrightarrow> py_if b f s = f s"
  by (simp add: py_if_def)

lemma py_if_False: "\<not> b s \<Longrightarrow> py_if b f s = (None, s)"
  by (simp add: py_if_def)

lemma keepsI: "(\<And>s. g (snd (f s)) = g s) \<Longrightarrow> keeps g f"
  by (simp add: keeps_def)

lemma keepsD: "keeps g f \<Longrightarrow> f s = (e, s') \<Longrightarrow> g s' = g s"
  by (auto simp: keeps_def dest: spec [of _ s])

lemma keeps_andthen: "keeps g f \<Longrightarrow> keeps g h \<Longrightarrow> keeps g (andthen f h)"
proof (rule keepsI)
  fix s assume f: "keeps g f" and h: "keeps g h"
  obtain e s' where fs: "f s = (e, s')" by (cases "f s")
  show "g (snd (andthen f h s)) = g s"
  proof (cases e)
    case None
    then have "andthen f h s = h s'" using fs by (simp add: andthen_def)
    moreover have "g (snd (h s')) = g s'" using h by (simp add: keeps_def)
    moreover have "g s' = g s" using f fs by (rule keepsD)
    ultimately show ?thesis by simp
  next
    case (Some a)
    then have "andthen f h s = (Some a, s')" using fs by (simp add: andthen_def)
    moreover have "g s' = g s" using f fs by (rule keepsD)
    ultimately show ?thesis by simp
  qed
qed

lemma keeps_py_if: "keeps g f \<Longrightarrow> keeps g (py_if b f)"
  by (simp add: keeps_def py_if_def)

lemma keeps_comp: "keeps g f \<Longrightarrow> keeps (\<lambda>s. k (g s)) f"
  by (simp add: keeps_def)

subsection \<open>Collecting a frame\<close>

lemma keeps_append_rows: "keeps (\<lambda>r. (fixed_part r, num_frames r)) (append_rows v)"
  by (rule keepsI) (simp add: append_rows_def fixed_part_def split: option.splits)

lemma keeps_append_cols: "keeps (\<lambda>r. (fixed_part r, num_frames r)) (append_cols v)"
  by (rule keepsI) (simp add: append_cols_def fixed_part_def split: option.splits)

lemma keeps_collect_contact_map: "keeps (\<lambda>r. (fixed_part r, num_frames r)) (collect_contact_map cm)"
  unfolding collect_contact_map_def
  by (intro keeps_andthen keeps_append_rows keeps_append_cols)

lemma keeps_collect_fraction_of_contacts:
  "keeps (\<lambda>r. (fixed_part r, num_frames r)) (collect_fraction_of_contacts ext cm)"
  by (rule keepsI)
     (simp add: collect_fraction_of_contacts_def fixed_part_def split: option.splits sum.splits)

lemma keeps_collect_point_cloud: "keeps (\<lambda>r. (fixed_part r, num_frames r)) (collect_point_cloud p)"
  by (rule keepsI)
     (simp add: collect_point_cloud_def fixed_part_def split: option.splits pc_buffer.splits)

lemma keeps_collect_rmsd: "keeps (\<lambda>r. (fixed_part r, num_frames r)) (collect_rmsd ext p)"
  by (rule keepsI)
     (simp add: collect_rmsd_def fixed_part_def split: option.splits sum.splits)

lemma keeps_case_sum:
  "(\<And>x. keeps g (h x)) \<Longrightarrow>
   keeps g (\<lambda>s. case c s of Inl e \<Rightarrow> (Some e, s) | Inr x \<Rightarrow> h x s)"
  by (auto simp: keeps_def split: sum.splits)

lemma keeps_collect_contacts:
  "keeps (\<lambda>r. (fixed_part r, num_frames r)) (collect_contacts ext p)"
  unfolding collect_contacts_def
  by (intro keeps_py_if keeps_case_sum keeps_andthen keeps_collect_contact_map
      keeps_collect_fraction_of_contacts)

lemma keeps_collect: "keeps (\<lambda>r. (fixed_part r, num_frames r)) (collect ext p)"
  unfolding collect_def
  by (intro keeps_andthen keeps_py_if keeps_collect_contacts keeps_collect_point_cloud
      keeps_collect_rmsd)


lemma append_rows_None:
  "append_rows v r = (None, r') \<longleftrightarrow>
     (\<exists>xs. rows r = Some xs \<and> r' = r\<lparr>rows := Some (xs @ [v])\<rparr>)"
  by (auto simp: append_rows_def split: option.splits)

lemma append_cols_None:
  "append_cols v r = (None, r') \<longleftrightarrow>
     (\<exists>xs. cols r = Some xs \<and> r' = r\<lparr>cols := Some (xs @ [v])\<rparr>)"
  by (auto simp: append_cols_def split: option.splits)

lemma collect_contact_map_None:
  "collect_contact_map coo r = (None, r') \<longleftrightarrow>
     (\<exists>rs cs. rows r = Some rs \<and> cols r = Some cs \<and>
        r' = r\<lparr>rows := Some (rs @ [map astype_int16 (coo_row coo)]),
               cols := Some (cs @ [map astype_int16 (coo_col coo)])\<rparr>)"
  by (auto simp: collect_contact_map_def andthen_None append_rows_None append_cols_None)

lemma collect_fraction_of_contacts_None:
  "collect_fraction_of_contacts ext cm r = (None, r') \<longleftrightarrow>
     (\<exists>xs ref v. fraction_of_contacts_data r = Some xs \<and> reference_contact_map r = Some ref \<and>
        fraction_of_contacts_fn ext cm ref = Inr v \<and>
        r' = r\<lparr>fraction_of_contacts_data := Some (xs @ [v])\<rparr>)"
  by (auto simp: collect_fraction_of_contacts_def split: option.splits sum.splits)

lemma collect_point_cloud_None:
  "collect_point_cloud p r = (None, r') \<longleftrightarrow>
     (\<exists>xs. point_cloud_data r = Some (PcList xs) \<and>
        r' = r\<lparr>point_cloud_data := Some (PcList (xs @ [p]))\<rparr>)"
  by (auto simp: collect_point_cloud_def split: option.splits pc_buffer.splits)

lemma collect_rmsd_None:
  "collect_rmsd ext p r = (None, r') \<longleftrightarrow>
     (\<exists>p' v xs. (case wrap r of None \<Rightarrow> Inr p | Some w \<Rightarrow> w p) = Inr p' \<and>
        rms_rmsd ext p' (reference_positions r) = Inr v \<and> rmsd r = Some xs \<and>
        r' = r\<lparr>rmsd := Some (xs @ [v])\<rparr>)"
  by (auto simp: collect_rmsd_def split: option.splits sum.splits)

lemma pc_len_Some: "pc_len b = Some k \<longleftrightarrow> (\<exists>xs. b = Some (PcList xs) \<and> length xs = k)"
  by (cases b rule: pc_len.cases) auto

lemma stage_contact_map_buffers:
  assumes "py_if (\<lambda>r. contact_map (cfg r)) (collect_contact_map cm) r = (None, r')"
    and "buffers_at r a b c d"
  shows "buffers_at r' (Suc a) b c d"
proof (cases "contact_map (cfg r)")
  case True
  then have "collect_contact_map cm r = (None, r')" using assms(1) by (simp add: py_if_True)
  then show ?thesis using assms(2) True
    by (auto simp: collect_contact_map_None buffers_at_def len_opt_def)
next
  case False
  then have "r' = r" using assms(1) by (simp add: py_if_False)
  then show ?thesis using assms(2) False by (simp add: buffers_at_def)
qed

lemma stage_fraction_buffers:
  assumes "py_if (\<lambda>r. fraction_of_contacts (cfg r)) (collect_fraction_of_contacts ext cm) r
             = (None, r')"
    and "buffers_at r a b c d"
  shows "buffers_at r' a (Suc b) c d"
proof (cases "fraction_of_contacts (cfg r)")
  case True
  then have "collect_fraction_of_contacts ext cm r = (None, r')"
    using assms(1) by (simp add: py_if_True)
  then show ?thesis using assms(2) True
    by (auto simp: collect_fraction_of_contacts_None buffers_at_def len_opt_def)
next
  case False
  then have "r' = r" using assms(1) by (simp add: py_if_False)
  then show ?thesis using assms(2) False by (simp add: buffers_at_def)
qed

lemma stage_point_cloud_buffers:
  assumes "py_if (\<lambda>r. point_cloud (cfg r)) (collect_point_cloud p) r = (None, r')"
    and "buffers_at r a b c d"
  shows "buffers_at r' a b (Suc c) d"
proof (cases "point_cloud (cfg r)")
  case True
  then have "collect_point_cloud p r = (None, r')" using assms(1) by (simp add: py_if_True)
  then show ?thesis using assms(2) True
    by (auto simp: collect_point_cloud_None buffers_at_def pc_len_Some)
next
  case False
  then have "r' = r" using assms(1) by (simp add: py_if_False)
  then show ?thesis using assms(2) False by (simp add: buffers_at_def)
qed

lemma stage_rmsd_buffers:
  assumes "py_if (\<lambda>r. reference_positions r \<noteq> None) (collect_rmsd ext p) r = (None, r')"
    and "buffers_at r a b c d" and "ref_consistent r"
  shows "buffers_at r' a b c (Suc d)"
proof (cases "reference_positions r \<noteq> None")
  case True
  then have "collect_rmsd ext p r = (None, r')" using assms(1) by (simp add: py_if_True)
  then show ?thesis using assms(2) True
    by (auto simp: collect_rmsd_None buffers_at_def len_opt_def)
next
  case False
  then have "r' = r" using assms(1) by (simp add: py_if_False)
  then show ?thesis using assms(2,3) False by (simp add: buffers_at_def ref_consistent_def)
qed

lemma stage_contacts_buffers:
  assumes "collect_contacts ext p r = (None, r')" and "buffers_at r a b c d"
  shows "buffers_at r' (Suc a) (Suc b) c d"
proof (cases "contact_map (cfg r) \<or> fraction_of_contacts (cfg r)")
  case False
  then have "r' = r" using assms(1) by (simp add: collect_contacts_def py_if_False)
  then show ?thesis using assms(2) False by (simp add: buffers_at_def)
next
  case True
  then have run: "(case compute_contact_map ext r p of
               Inl e \<Rightarrow> (Some e, r)
             | Inr cm \<Rightarrow>
                 andthen
                   (py_if (\<lambda>r. contact_map (cfg r)) (collect_contact_map cm))
                   (py_if (\<lambda>r. fraction_of_contacts (cfg r))
                      (collect_fraction_of_contacts ext cm)) r) = (None, r')"
    using assms(1) by (simp add: collect_contacts_def py_if_True)
  then obtain cm where cm: "compute_contact_map ext r p = Inr cm"
    by (cases "compute_contact_map ext r p") auto
  with run obtain ra where
    1: "py_if (\<lambda>r. contact_map (cfg r)) (collect_contact_map cm) r = (None, ra)" and
    2: "py_if (\<lambda>r. fraction_of_contacts (cfg r)) (collect_fraction_of_contacts ext cm) ra
          = (None, r')"
    by (auto simp: andthen_None)
  from 1 assms(2) have "buffers_at ra (Suc a) b c d" by (rule stage_contact_map_buffers)
  with 2 show ?thesis by (rule stage_fraction_buffers)
qed

lemma fixed_part_ref_consistent:
  "fixed_part r' = fixed_part r \<Longrightarrow> ref_consistent r' = ref_consistent r"
  by (simp add: fixed_part_def ref_consistent_def)

lemma collect_buffers:
  assumes "collect ext p r = (None, r')" and "buffers_hold r k" and "ref_consistent r"
  shows "buffers_hold r' (Suc k)"
proof -
  from assms(1) obtain ra rb where
    1: "collect_contacts ext p r = (None, ra)" and
    2: "py_if (\<lambda>r. point_cloud (cfg r)) (collect_point_cloud p) ra = (None, rb)" and
    3: "py_if (\<lambda>r. reference_positions r \<noteq> None) (collect_rmsd ext p) rb = (None, r')"
    by (auto simp: collect_def andthen_None)
  have "fixed_part ra = fixed_part r"
    using keepsD [OF keeps_collect_contacts 1] by simp
  then have "ref_consistent ra = ref_consistent r" by (rule fixed_part_ref_consistent)
  moreover have "fixed_part rb = fixed_part ra"
    using keepsD [OF keeps_py_if [OF keeps_collect_point_cloud] 2] by simp
  then have "ref_consistent rb = ref_consistent ra" by (rule fixed_part_ref_consistent)
  ultimately have rc: "ref_consistent rb" using assms(3) by blast
  have "buffers_at ra (Suc k) (Suc k) k k"
    using 1 assms(2) unfolding buffers_hold_def by (rule stage_contacts_buffers)
  with 2 have "buffers_at rb (Suc k) (Suc k) (Suc k) k" by (rule stage_point_cloud_buffers)
  with 3 show ?thesis unfolding buffers_hold_def using rc by (rule stage_rmsd_buffers)
qed


subsection \<open>Resetting\<close>

lemma fixed_part_init_batch: "fixed_part (init_batch r) = fixed_part r"
  by (simp add: init_batch_def fixed_part_def Let_def)

lemma cfg_init_batch: "cfg (init_batch r) = cfg r"
  by (simp add: init_batch_def Let_def)

lemma num_frames_init_batch: "num_frames (init_batch r) = 0"
  by (simp add: init_batch_def Let_def)

lemma buffers_hold_init_batch: "buffers_hold (init_batch r) 0"
  by (simp add: buffers_hold_def buffers_at_def init_batch_def Let_def len_opt_def)

subsection \<open>Flushing\<close>

lemma keeps_io_write: "keeps (\<lambda>s. g (fst s)) (io_write stage fault w)"
  by (rule keepsI) (simp add: io_write_def split: prod.splits)

lemma keeps_flush_contact_map: "keeps (\<lambda>s. g (fst s)) (flush_contact_map fault)"
  by (rule keepsI) (simp add: flush_contact_map_def io_write_def split: prod.splits option.splits)

lemma keeps_flush_rmsd: "keeps (\<lambda>s. g (fst s)) (flush_rmsd fault)"
  by (rule keepsI) (simp add: flush_rmsd_def io_write_def split: prod.splits option.splits)

lemma keeps_flush_fraction_of_contacts:
  "keeps (\<lambda>s. g (fst s)) (flush_fraction_of_contacts fault)"
  by (rule keepsI)
     (simp add: flush_fraction_of_contacts_def io_write_def split: prod.splits option.splits)

lemma keeps_flush_point_cloud:
  "keeps (\<lambda>s. (fixed_part (fst s), scalar_buffers (fst s))) (flush_point_cloud fault)"
  by (rule keepsI)
     (simp add: flush_point_cloud_def io_write_def fixed_part_def scalar_buffers_def
        split: prod.splits option.splits sum.splits)

lemma keeps_flush_body:
  "keeps (\<lambda>s. (fixed_part (fst s), scalar_buffers (fst s))) (flush_body fault)"
  unfolding flush_body_def
  by (intro keeps_andthen keeps_py_if keeps_flush_contact_map keeps_flush_point_cloud
      keeps_flush_rmsd keeps_flush_fraction_of_contacts)

lemma flush_keeps:
  assumes "flush fault (r, fs) = (e, (r', fs'))"
  shows "fixed_part r' = fixed_part r" and "scalar_buffers r' = scalar_buffers r"
    and "\<And>p. p \<noteq> file_name r \<Longrightarrow> fs' p = fs p"
proof -
  obtain e1 r1 h1 where b: "flush_body fault (r, empty_h5) = (e1, (r1, h1))"
    by (cases "flush_body fault (r, empty_h5)") auto
  have k: "fixed_part r1 = fixed_part r \<and> scalar_buffers r1 = scalar_buffers r"
    using keepsD [OF keeps_flush_body b] by simp
  have r': "r' = r \<or> r' = r1" and fs': "fs' = fs \<or> fs' = fs(file_name r \<mapsto> h1)"
    using assms b by (auto simp: flush_def split: if_splits option.splits)
  show "fixed_part r' = fixed_part r" using r' k by auto
  show "scalar_buffers r' = scalar_buffers r" using r' k by auto
  show "\<And>p. p \<noteq> file_name r \<Longrightarrow> fs' p = fs p" using fs' by auto
qed

text \<open>The stages of a flush that returns.\<close>

lemma stage_flush_contact_map:
  assumes "py_if (\<lambda>s. contact_map (cfg (fst s))) (flush_contact_map fault) (r, h) = (None, (r', h'))"
  shows "r' = r"
    and "contact_map (cfg r) \<Longrightarrow>
           h' = h\<lparr>contact_map_rows_slot := rows r, contact_map_cols_slot := cols r\<rparr>
         \<and> rows r \<noteq> None \<and> cols r \<noteq> None \<and> fault \<noteq> Some AtContactMap"
    and "\<not> contact_map (cfg r) \<Longrightarrow> h' = h"
  using assms
  by (auto simp: py_if_def flush_contact_map_def io_write_def write_contact_map_def
      split: if_splits option.splits)

lemma stage_flush_point_cloud:
  assumes "py_if (\<lambda>s. point_cloud (cfg (fst s))) (flush_point_cloud fault) (r, h) = (None, (r', h'))"
  shows "point_cloud (cfg r) \<Longrightarrow>
           \<exists>buf a. point_cloud_data r = Some buf \<and> np_transpose_021 buf = Inr a \<and>
             r' = r\<lparr>point_cloud_data := Some (PcArray a)\<rparr> \<and>
             h' = h\<lparr>point_cloud_slot := Some a\<rparr> \<and> fault \<noteq> Some AtPointCloud"
    and "\<not> point_cloud (cfg r) \<Longrightarrow> r' = r \<and> h' = h"
  using assms
  by (auto simp: py_if_def flush_point_cloud_def io_write_def write_point_cloud_def
      split: if_splits option.splits sum.splits)

lemma stage_flush_rmsd:
  assumes "py_if (\<lambda>s. reference_positions (fst s) \<noteq> None) (flush_rmsd fault) (r, h) = (None, (r', h'))"
  shows "r' = r"
    and "reference_positions r \<noteq> None \<Longrightarrow>
           h' = h\<lparr>rmsd_slot := rmsd r\<rparr> \<and> rmsd r \<noteq> None \<and> fault \<noteq> Some AtRmsd"
    and "reference_positions r = None \<Longrightarrow> h' = h"
  using assms
  by (auto simp: py_if_def flush_rmsd_def io_write_def write_rmsd_def
      split: if_splits option.splits)

lemma stage_flush_fraction_of_contacts:
  assumes "py_if (\<lambda>s. fraction_of_contacts (cfg (fst s))) (flush_fraction_of_contacts fault) (r, h)
             = (None, (r', h'))"
  shows "r' = r"
    and "fraction_of_contacts (cfg r) \<Longrightarrow>
           h' = h\<lparr>fraction_of_contacts_slot := fraction_of_contacts_data r\<rparr>
         \<and> fraction_of_contacts_data r \<noteq> None \<and> fault \<noteq> Some AtFraction"
    and "\<not> fraction_of_contacts (cfg r) \<Longrightarrow> h' = h"
  using assms
  by (auto simp: py_if_def flush_fraction_of_contacts_def io_write_def
      write_fraction_of_contacts_def split: if_splits option.splits)


lemma flush_body_None:
  assumes "flush_body fault (r, empty_h5) = (None, (r', h))"
  shows "contact_map_rows_slot h = (if contact_map (cfg r) then rows r else None)"
    and "contact_map_cols_slot h = (if contact_map (cfg r) then cols r else None)"
    and "rmsd_slot h = (if reference_positions r \<noteq> None then rmsd r else None)"
    and "fraction_of_contacts_slot h
           = (if fraction_of_contacts (cfg r) then fraction_of_contacts_data r else None)"
    and "point_cloud (cfg r) \<Longrightarrow>
           \<exists>buf a. point_cloud_data r = Some buf \<and> np_transpose_021 buf = Inr a \<and>
             point_cloud_slot h = Some a \<and> point_cloud_data r' = Some (PcArray a)"
    and "\<not> point_cloud (cfg r) \<Longrightarrow>
           point_cloud_slot h = None \<and> point_cloud_data r' = point_cloud_data r"
    and "contact_map (cfg r) \<Longrightarrow> rows r \<noteq> None \<and> cols r \<noteq> None"
    and "reference_positions r \<noteq> None \<Longrightarrow> rmsd r \<noteq> None"
    and "fraction_of_contacts (cfg r) \<Longrightarrow> fraction_of_contacts_data r \<noteq> None"
proof -
  from assms obtain s1 s2 s3 where
    "py_if (\<lambda>s. contact_map (cfg (fst s))) (flush_contact_map fault) (r, empty_h5) = (None, s1)"
    "py_if (\<lambda>s. point_cloud (cfg (fst s))) (flush_point_cloud fault) s1 = (None, s2)"
    "py_if (\<lambda>s. reference_positions (fst s) \<noteq> None) (flush_rmsd fault) s2 = (None, s3)"
    "py_if (\<lambda>s. fraction_of_contacts (cfg (fst s))) (flush_fraction_of_contacts fault) s3
       = (None, (r', h))"
    unfolding flush_body_def andthen_None by blast
  then obtain r1 h1 r2 h2 r3 h3 where
    1: "py_if (\<lambda>s. contact_map (cfg (fst s))) (flush_contact_map fault) (r, empty_h5)
          = (None, (r1, h1))" and
    2: "py_if (\<lambda>s. point_cloud (cfg (fst s))) (flush_point_cloud fault) (r1, h1)
          = (None, (r2, h2))" and
    3: "py_if (\<lambda>s. reference_positions (fst s) \<noteq> None) (flush_rmsd fault) (r2, h2)
          = (None, (r3, h3))" and
    4: "py_if (\<lambda>s. fraction_of_contacts (cfg (fst s))) (flush_fraction_of_contacts fault) (r3, h3)
          = (None, (r', h))"
    by (cases s1, cases s2, cases s3) auto
  note a = stage_flush_contact_map [OF 1]
  have r1: "r1 = r" by (rule a(1))
  note b = stage_flush_point_cloud [OF 2 [unfolded r1]]
  have k2: "fixed_part r2 = fixed_part r \<and> scalar_buffers r2 = scalar_buffers r"
    using keepsD [OF keeps_py_if [OF keeps_flush_point_cloud] 2 [unfolded r1]] by simp
  then have f2: "cfg r2 = cfg r" "reference_positions r2 = reference_positions r"
    "rmsd r2 = rmsd r" "fraction_of_contacts_data r2 = fraction_of_contacts_data r"
    by (simp_all add: fixed_part_def scalar_buffers_def)
  note c = stage_flush_rmsd [OF 3, unfolded f2]
  have r3: "r3 = r2" by (rule c(1))
  note d = stage_flush_fraction_of_contacts [OF 4 [unfolded r3], unfolded f2]
  have r': "r' = r2" by (rule d(1))
  have h1: "h1 = (if contact_map (cfg r)
                  then empty_h5\<lparr>contact_map_rows_slot := rows r, contact_map_cols_slot := cols r\<rparr>
                  else empty_h5)"
    using a(2,3) by (cases "contact_map (cfg r)") simp_all
  have h2: "\<exists>x. h2 = h1\<lparr>point_cloud_slot := x\<rparr>"
  proof (cases "point_cloud (cfg r)")
    case True
    from b(1) [OF True] show ?thesis by blast
  next
    case False
    from b(2) [OF False] have "h2 = h1\<lparr>point_cloud_slot := point_cloud_slot h1\<rparr>" by simp
    then show ?thesis by blast
  qed
  then have h2rows: "contact_map_rows_slot h2 = contact_map_rows_slot h1"
    "contact_map_cols_slot h2 = contact_map_cols_slot h1"
    "rmsd_slot h2 = rmsd_slot h1" "fraction_of_contacts_slot h2 = fraction_of_contacts_slot h1"
    by auto
  have h3: "h3 = (if reference_positions r \<noteq> None then h2\<lparr>rmsd_slot := rmsd r\<rparr> else h2)"
    using c(2,3) by (cases "reference_positions r = None") simp_all
  have h: "h = (if fraction_of_contacts (cfg r)
                then h3\<lparr>fraction_of_contacts_slot := fraction_of_contacts_data r\<rparr> else h3)"
    using d(2,3) by (cases "fraction_of_contacts (cfg r)") simp_all
  show "contact_map_rows_slot h = (if contact_map (cfg r) then rows r else None)"
    using h h3 h2rows(1) h1 by (simp add: empty_h5_def)
  show "contact_map_cols_slot h = (if contact_map (cfg r) then cols r else None)"
    using h h3 h2rows(2) h1 by (simp add: empty_h5_def)
  show "rmsd_slot h = (if reference_positions r \<noteq> None then rmsd r else None)"
    using h h3 h2rows(3) h1 by (simp add: empty_h5_def)
  show "fraction_of_contacts_slot h
           = (if fraction_of_contacts (cfg r) then fraction_of_contacts_data r else None)"
    using h h3 h2rows(4) h1 by (simp add: empty_h5_def)
  show "\<exists>buf a. point_cloud_data r = Some buf \<and> np_transpose_021 buf = Inr a \<and>
             point_cloud_slot h = Some a \<and> point_cloud_data r' = Some (PcArray a)"
    if "point_cloud (cfg r)"
  proof -
    from b(1) [OF that] obtain buf a where
      ba: "point_cloud_data r = Some buf" "np_transpose_021 buf = Inr a" and
      r2: "r2 = r\<lparr>point_cloud_data := Some (PcArray a)\<rparr>" and
      h2': "h2 = h1\<lparr>point_cloud_slot := Some a\<rparr>"
      by blast
    have "point_cloud_slot h = Some a" using h h3 h2' by simp
    moreover have "point_cloud_data r' = Some (PcArray a)" using r' r2 by simp
    ultimately show ?thesis using ba by blast
  qed
  show "point_cloud_slot h = None \<and> point_cloud_data r' = point_cloud_data r"
    if "\<not> point_cloud (cfg r)"
  proof -
    from b(2) [OF that] have "r2 = r" "h2 = h1" by simp_all
    then show ?thesis using h h3 h1 r' by (simp add: empty_h5_def)
  qed
  show "rows r \<noteq> None \<and> cols r \<noteq> None" if "contact_map (cfg r)"
    using a(2) [OF that] by simp
  show "rmsd r \<noteq> None" if "reference_positions r \<noteq> None"
    using c(2) [OF that] by simp
  show "fraction_of_contacts_data r \<noteq> None" if "fraction_of_contacts (cfg r)"
    using d(2) [OF that] by simp
qed

lemma flush_None:
  assumes "flush fault (r, fs) = (None, (r', fs'))"
  shows "\<exists>h. flush_body fault (r, empty_h5) = (None, (r', h)) \<and> fs' = fs(file_name r \<mapsto> h)"
  using assms
  by (auto simp: flush_def split: if_splits option.splits prod.splits)


lemma np_transpose_PcList:
  assumes "np_transpose_021 (PcList frames) = Inr a"
  shows "frames \<noteq> []" and "\<forall>g \<in> set frames. length g = length (hd frames)"
    and "dims a = (length frames, 3, length (hd frames))"
    and "elems a = map (\<lambda>fr. [map (coord 0) fr, map (coord 1) fr, map (coord 2) fr]) frames"
proof -
  from assms obtain fr rest where fr: "frames = fr # rest"
    by (cases frames) (auto simp: np_transpose_021_def np_array_def)
  with assms have same: "\<forall>g \<in> set rest. length g = length fr"
    by (auto simp: np_transpose_021_def np_array_def split: if_splits)
  with assms fr have a: "a = transpose_021 \<lparr>dims = (length frames, length fr, 3),
                    elems = map (map vec3_list) frames\<rparr>"
    by (auto simp: np_transpose_021_def np_array_def)
  show "frames \<noteq> []" using fr by simp
  show "\<forall>g \<in> set frames. length g = length (hd frames)" using fr same by simp
  show "dims a = (length frames, 3, length (hd frames))"
    using a fr by (simp add: transpose_021_def)
  have u: "[0..<3] = [0, 1, 2::nat]" by (simp add: upt_rec)
  show "elems a = map (\<lambda>fr. [map (coord 0) fr, map (coord 1) fr, map (coord 2) fr]) frames"
    unfolding a by (simp add: transpose_021_def u coord_def)
qed

lemma np_transpose_PcList_entry:
  assumes "np_transpose_021 (PcList frames) = Inr a"
    and "f < length frames" and "c < 3" and "i < length (frames ! f)"
  shows "elems a ! f ! c ! i = coord c (frames ! f ! i)"
proof -
  have "elems a ! f = [map (coord 0) (frames ! f), map (coord 1) (frames ! f),
                       map (coord 2) (frames ! f)]"
    using np_transpose_PcList(4) [OF assms(1)] assms(2) by simp
  moreover from assms(3) have "c = 0 \<or> c = 1 \<or> c = 2" by arith
  ultimately show ?thesis using assms(4) by auto
qed


lemma collect_keeps:
  assumes "collect ext p r = (e, r1)"
  shows "fixed_part r1 = fixed_part r" and "num_frames r1 = num_frames r" and "cfg r1 = cfg r"
proof -
  have k: "(fixed_part r1, num_frames r1) = (fixed_part r, num_frames r)"
    using keepsD [OF keeps_collect assms] .
  then show "fixed_part r1 = fixed_part r" and "num_frames r1 = num_frames r" by simp_all
  then show "cfg r1 = cfg r" by (simp add: fixed_part_def)
qed

lemma report_cases [consumes 1, case_names select_fails collect_fails no_flush flush_fails flushed]:
  assumes "report ext fault sim st (r, fs) = (e, (r', fs'))"
  obtains
    err where "select_positions ext (cfg r) sim st = Inl err"
      and "e = Some err" and "r' = r" and "fs' = fs"
  | p err where "select_positions ext (cfg r) sim st = Inr p"
      and "collect ext p r = (Some err, r')" and "e = Some err" and "fs' = fs"
  | p r1 where "select_positions ext (cfg r) sim st = Inr p"
      and "collect ext p r = (None, r1)"
      and "num_frames r + 1 \<noteq> frames_per_h5 (cfg r)"
      and "e = None" and "r' = r1\<lparr>num_frames := num_frames r + 1\<rparr>" and "fs' = fs"
  | p r1 err where "select_positions ext (cfg r) sim st = Inr p"
      and "collect ext p r = (None, r1)"
      and "num_frames r + 1 = frames_per_h5 (cfg r)"
      and "flush fault (r1\<lparr>num_frames := num_frames r + 1\<rparr>, fs) = (Some err, (r', fs'))"
      and "e = Some err"
  | p r1 r3 where "select_positions ext (cfg r) sim st = Inr p"
      and "collect ext p r = (None, r1)"
      and "num_frames r + 1 = frames_per_h5 (cfg r)"
      and "flush fault (r1\<lparr>num_frames := num_frames r + 1\<rparr>, fs) = (None, (r3, fs'))"
      and "e = None" and "r' = init_batch r3"
proof (cases "select_positions ext (cfg r) sim st")
  case (Inl err)
  with assms have "e = Some err" "r' = r" "fs' = fs" by (simp_all add: report_def)
  with Inl show ?thesis by (rule that(1))
next
  case (Inr p)
  obtain ec r1 where c: "collect ext p r = (ec, r1)" by (cases "collect ext p r")
  note k = collect_keeps [OF c]
  show ?thesis
  proof (cases ec)
    case (Some err)
    with assms Inr c have "e = Some err" "r' = r1" "fs' = fs" by (simp_all add: report_def)
    with Inr c Some show ?thesis using that(2) by simp
  next
    case None
    show ?thesis
    proof (cases "num_frames r + 1 = frames_per_h5 (cfg r)")
      case False
      with assms Inr c None k
      have "e = None" "r' = r1\<lparr>num_frames := num_frames r + 1\<rparr>" "fs' = fs"
        by (simp_all add: report_def Let_def)
      with Inr c None False show ?thesis using that(3) by simp
    next
      case True
      obtain ef r3 fs3 where
        f: "flush fault (r1\<lparr>num_frames := num_frames r + 1\<rparr>, fs) = (ef, (r3, fs3))"
        by (cases "flush fault (r1\<lparr>num_frames := num_frames r + 1\<rparr>, fs)") auto
      show ?thesis
      proof (cases ef)
        case (Some err)
        with assms Inr c None True k f have "e = Some err" "r' = r3" "fs' = fs3"
          by (simp_all add: report_def Let_def)
        with Inr c None True f Some show ?thesis using that(4) by simp
      next
        case None': None
        with assms Inr c None True k f have "e = None" "r' = init_batch r3" "fs' = fs3"
          by (simp_all add: report_def Let_def)
        with Inr c None True f None' show ?thesis using that(5) by simp
      qed
    qed
  qed
qed


subsection \<open>The scheduling query\<close>

lemma steps_reach_multiple:
  fixes p s :: int
  shows "(s + (p - s mod p)) mod p = 0"
proof -
  have "s + (p - s mod p) = p * (s div p + 1)"
    by (simp add: algebra_simps minus_mod_eq_mult_div)
  then show ?thesis by simp
qed

lemma steps_least:
  fixes p s d :: int
  assumes "0 < p" and "0 < d" and "d < p - s mod p"
  shows "(s + d) mod p \<noteq> 0"
proof -
  have m: "0 \<le> s mod p" using assms(1) by simp
  have "(s + d) mod p = (s mod p + d) mod p" by (simp add: mod_add_left_eq)
  also have "\<dots> = s mod p + d" using m assms by (intro mod_pos_pos_trivial) auto
  finally show ?thesis using m assms by linarith
qed

text \<open>
  C5. For a report interval \<open>r > 0\<close> and a current step \<open>s\<close>, the scheduling query returns
  \<open>(r - s mod r, True, False, False, False, None)\<close>: positions only, no extra parameters.
  Its first component is the number of steps to the next multiple of \<open>r\<close> after \<open>s\<close>: it
  is positive and at most \<open>r\<close>, \<open>s\<close> plus it is a multiple of \<open>r\<close>, no smaller positive
  number of steps reaches one, and it is \<open>r\<close> itself (not 0) when \<open>s\<close> is a multiple of \<open>r\<close>.
\<close>

theorem describeNextReport_positions_only:
  assumes "0 < report_interval (cfg r)"
  shows "describeNextReport r sim =
           Inr (report_interval (cfg r) - currentStep sim mod report_interval (cfg r),
                True, False, False, False, None)
       \<and> 0 < report_interval (cfg r) - currentStep sim mod report_interval (cfg r)
       \<and> report_interval (cfg r) - currentStep sim mod report_interval (cfg r)
           \<le> report_interval (cfg r)
       \<and> (currentStep sim
            + (report_interval (cfg r) - currentStep sim mod report_interval (cfg r)))
           mod report_interval (cfg r) = 0
       \<and> (\<forall>d. 0 < d \<and> d < report_interval (cfg r) - currentStep sim mod report_interval (cfg r)
              \<longrightarrow> (currentStep sim + d) mod report_interval (cfg r) \<noteq> 0)
       \<and> (currentStep sim mod report_interval (cfg r) = 0 \<longrightarrow>
            report_interval (cfg r) - currentStep sim mod report_interval (cfg r)
              = report_interval (cfg r))"
proof -
  define p where "p = report_interval (cfg r)"
  define s where "s = currentStep sim"
  have p: "0 < p" using assms by (simp add: p_def)
  have m: "0 \<le> s mod p" "s mod p < p" using p by simp_all
  have a: "(s + (p - s mod p)) mod p = 0" by (rule steps_reach_multiple)
  have b: "\<forall>d. 0 < d \<and> d < p - s mod p \<longrightarrow> (s + d) mod p \<noteq> 0"
    by (auto dest: steps_least [OF p])
  show ?thesis
    unfolding describeNextReport_def Let_def p_def [symmetric] s_def [symmetric]
    using p m a b by simp
qed

theorem describeNextReport_positions_only_witness:
  "0 < report_interval (cfg (fresh ex_config))
   \<and> describeNextReport (fresh ex_config) ex_sim = Inr (5, True, False, False, False, None)
   \<and> describeNextReport (fresh ex_config) (ex_sim\<lparr>currentStep := 30\<rparr>)
       = Inr (10, True, False, False, False, None)"
  using describeNextReport_positions_only [of "fresh ex_config" ex_sim]
    describeNextReport_positions_only [of "fresh ex_config" "ex_sim\<lparr>currentStep := 30\<rparr>"]
  by (simp add: fresh_def ex_config_def ex_sim_def)

subsection \<open>The 16-bit contact-map indices\<close>

lemma sint_astype_int16: "sint (astype_int16 i) = signed_take_bit 15 (sint i)"
proof -
  have "sint (word_of_int (sint i) :: 16 word) = signed_take_bit (LENGTH(16) - 1) (sint i)"
    by (rule sint_sbintrunc')
  then show ?thesis unfolding astype_int16_def scast_eq by simp
qed

lemma astype_int16_small:
  "0 \<le> sint i \<Longrightarrow> sint i < 32768 \<Longrightarrow> sint (astype_int16 i) = sint i"
  by (simp add: sint_astype_int16 signed_take_bit_int_eq_self)

lemma astype_int16_mod: "sint (astype_int16 i) mod 65536 = sint i mod 65536"
proof -
  have "take_bit 16 (signed_take_bit 15 (sint i)) = take_bit 16 (sint i)"
    by (simp add: take_bit_signed_take_bit)
  then show ?thesis by (simp add: sint_astype_int16 take_bit_eq_mod)
qed

lemma astype_int16_range:
  "- 32768 \<le> sint (astype_int16 i)" "sint (astype_int16 i) < 32768"
proof -
  show "- 32768 \<le> sint (astype_int16 i)"
    using signed_take_bit_int_greater_eq_minus_exp [of 15 "sint i"]
    by (simp add: sint_astype_int16)
  show "sint (astype_int16 i) < 32768"
    using signed_take_bit_int_less_exp [of 15 "sint i"]
    by (simp add: sint_astype_int16)
qed

lemma astype_int16_large:
  assumes "32768 \<le> sint i"
  shows "sint (astype_int16 i) \<noteq> sint i"
  using assms astype_int16_range(2) [of i] by linarith

text \<open>
  C10. Collecting a contact map appends to the row buffer and to the column buffer the
  COO indices cast to 16-bit signed integers. In a frame whose indices are all below
  \<open>2^15\<close> the stored values, read as signed numbers, are the indices. Any index of at least
  \<open>2^15\<close> is stored as a value of the signed 16-bit range that is congruent to it modulo
  \<open>2^16\<close> and differs from it.
\<close>

theorem contact_map_indices_int16:
  assumes "rows r = Some rs" and "cols r = Some cs"
  shows "collect_contact_map coo r =
           (None, r\<lparr>rows := Some (rs @ [map astype_int16 (coo_row coo)]),
                    cols := Some (cs @ [map astype_int16 (coo_col coo)])\<rparr>)
       \<and> ((\<forall>i \<in> set (coo_row coo) \<union> set (coo_col coo). 0 \<le> sint i \<and> sint i < 2 ^ 15) \<longrightarrow>
              map sint (map astype_int16 (coo_row coo)) = map sint (coo_row coo)
            \<and> map sint (map astype_int16 (coo_col coo)) = map sint (coo_col coo))
       \<and> (\<forall>i \<in> set (coo_row coo) \<union> set (coo_col coo). 2 ^ 15 \<le> sint i \<longrightarrow>
              sint (astype_int16 i) \<noteq> sint i
            \<and> - (2 ^ 15) \<le> sint (astype_int16 i) \<and> sint (astype_int16 i) < 2 ^ 15
            \<and> sint (astype_int16 i) mod 2 ^ 16 = sint i mod 2 ^ 16)"
proof -
  have "collect_contact_map coo r =
           (None, r\<lparr>rows := Some (rs @ [map astype_int16 (coo_row coo)]),
                    cols := Some (cs @ [map astype_int16 (coo_col coo)])\<rparr>)"
    using assms by (simp add: collect_contact_map_None)
  moreover have "map sint (map astype_int16 xs) = map sint xs"
    if "\<forall>i \<in> set xs. 0 \<le> sint i \<and> sint i < 32768" for xs :: "int32 list"
    using that by (induction xs) (simp_all add: astype_int16_small)
  ultimately show ?thesis
    using astype_int16_large astype_int16_range astype_int16_mod
    by (auto simp: astype_int16_small)
qed

theorem contact_map_indices_int16_witness:
  "rows (init_batch (fresh ex_config_full)) = Some []
   \<and> cols (init_batch (fresh ex_config_full)) = Some []
   \<and> fst (collect_contact_map \<lparr>coo_row = [3, 40000], coo_col = [40000, 3]\<rparr>
            (init_batch (fresh ex_config_full))) = None
   \<and> map sint (map astype_int16 [3, 7]) = [3, 7]
   \<and> sint (40000 :: int32) = 40000
   \<and> sint (astype_int16 40000) = - 25536"
  using contact_map_indices_int16 [of "init_batch (fresh ex_config_full)" "[]" "[]"
      "\<lparr>coo_row = [3, 40000], coo_col = [40000, 3]\<rparr>"]
    contact_map_indices_int16 [of "init_batch (fresh ex_config_full)" "[]" "[]"
      "\<lparr>coo_row = [3, 7], coo_col = [7, 3]\<rparr>"]
  by (simp add: init_batch_def fresh_def ex_config_full_def ex_config_def Let_def astype_int16_def)


subsection \<open>Construction\<close>

lemma init_reference_positions_Inr:
  assumes "init_reference_positions ext r = Inr r'"
  shows "ref_consistent r'" and "cfg r' = cfg r" and "file_idx r' = file_idx r"
    and "(num_frames r', rows r', cols r', rmsd r', fraction_of_contacts_data r',
          point_cloud_data r')
       = (num_frames r, rows r, cols r, rmsd r, fraction_of_contacts_data r, point_cloud_data r)"
  using assms
  by (auto simp: init_reference_positions_def ref_consistent_def split: option.splits sum.splits)

lemma init_reference_contact_map_Inr:
  assumes "init_reference_contact_map ext r = Inr r'"
  shows "reference_positions r' = reference_positions r" and "cfg r' = cfg r"
    and "file_idx r' = file_idx r"
    and "(num_frames r', rows r', cols r', rmsd r', fraction_of_contacts_data r',
          point_cloud_data r')
       = (num_frames r, rows r, cols r, rmsd r, fraction_of_contacts_data r, point_cloud_data r)"
  using assms
  by (auto simp: init_reference_contact_map_def split: if_splits option.splits sum.splits)

lemma init_wrap_Inr:
  assumes "init_wrap ext r = Inr r'"
  shows "reference_positions r' = reference_positions r" and "cfg r' = cfg r"
    and "file_idx r' = file_idx r"
    and "(num_frames r', rows r', cols r', rmsd r', fraction_of_contacts_data r',
          point_cloud_data r')
       = (num_frames r, rows r, cols r, rmsd r, fraction_of_contacts_data r, point_cloud_data r)"
  using assms
  by (auto simp: init_wrap_def split: option.splits sum.splits)

lemma buffers_hold_cong:
  assumes "cfg r' = cfg r"
    and "(num_frames r', rows r', cols r', rmsd r', fraction_of_contacts_data r',
          point_cloud_data r')
       = (num_frames r, rows r, cols r, rmsd r, fraction_of_contacts_data r, point_cloud_data r)"
  shows "buffers_hold r' k = buffers_hold r k"
  using assms by (simp add: buffers_hold_def buffers_at_def)

lemma OfflineReporter_init_Inr:
  assumes "OfflineReporter_init ext c = Inr r"
  shows "reset_state r" and "cfg r = c" and "file_idx r = 0"
proof -
  from assms obtain r1 r2 where
    1: "init_reference_positions ext (init_batch (fresh c)) = Inr r1" and
    2: "init_reference_contact_map ext r1 = Inr r2" and
    3: "init_wrap ext r2 = Inr r"
    by (auto simp: OfflineReporter_init_def split: if_splits sum.splits)
  note a = init_reference_positions_Inr [OF 1]
  note b = init_reference_contact_map_Inr [OF 2]
  note c = init_wrap_Inr [OF 3]
  have cfg0: "cfg (init_batch (fresh c)) = c" by (simp add: cfg_init_batch fresh_def)
  show cfg: "cfg r = c" using a(2) b(2) c(2) cfg0 by simp
  have "file_idx (init_batch (fresh c)) = 0" by (simp add: init_batch_def Let_def fresh_def)
  then show "file_idx r = 0" using a(3) b(3) c(3) by simp
  have "ref_consistent r"
    using a(1) a(2) b(1) b(2) c(1) c(2) by (simp add: ref_consistent_def)
  moreover have "buffers_hold r1 0"
    using buffers_hold_cong [OF a(2) a(4)] buffers_hold_init_batch by blast
  then have "buffers_hold r2 0" using buffers_hold_cong [OF b(2) b(4)] by blast
  then have "buffers_hold r 0" using buffers_hold_cong [OF c(2) c(4)] by blast
  moreover have "num_frames r = 0"
    using a(4) b(4) c(4) num_frames_init_batch [of "fresh c"] by simp
  ultimately show "reset_state r" by (simp add: reset_state_def)
qed

text \<open>
  C2. Construction with the fraction of contacts or the contact map enabled and no
  reference file returns no reporter: it raises the \<open>ValueError\<close> of lines 55 to 60 (the
  error that the spec names ConfigurationError). With a reference file the two checks
  pass: construction goes on to load the reference, and returns a reporter whenever the
  loaders return.
\<close>

theorem init_requires_reference:
  "((fraction_of_contacts c \<or> contact_map c) \<and> reference_pdb_file c = None \<longrightarrow>
      (\<exists>msg. OfflineReporter_init ext c = Inl (ValueError msg)))
   \<and> (reference_pdb_file c \<noteq> None \<longrightarrow>
        OfflineReporter_init ext c =
          (case init_reference_positions ext (init_batch (fresh c)) of
             Inl e \<Rightarrow> Inl e
           | Inr r1 \<Rightarrow>
               (case init_reference_contact_map ext r1 of
                  Inl e \<Rightarrow> Inl e
                | Inr r2 \<Rightarrow> init_wrap ext r2)))
   \<and> (reference_pdb_file c = Some path \<and>
        universe_positions ext path (mda_selection c) = Inr p \<and>
        contact_matrix ext p (threshold c) = Inr cm \<and>
        (case wrap_pdb_file c of
           None \<Rightarrow> True
         | Some wpath \<Rightarrow> wrap_nsp10_16 ext wpath (mda_selection c) = Inr w) \<longrightarrow>
        (\<exists>r. OfflineReporter_init ext c = Inr r))"
proof (intro conjI impI)
  assume "(fraction_of_contacts c \<or> contact_map c) \<and> reference_pdb_file c = None"
  then show "\<exists>msg. OfflineReporter_init ext c = Inl (ValueError msg)"
    by (auto simp: OfflineReporter_init_def)
next
  assume "reference_pdb_file c \<noteq> None"
  then show "OfflineReporter_init ext c =
          (case init_reference_positions ext (init_batch (fresh c)) of
             Inl e \<Rightarrow> Inl e
           | Inr r1 \<Rightarrow>
               (case init_reference_contact_map ext r1 of
                  Inl e \<Rightarrow> Inl e
                | Inr r2 \<Rightarrow> init_wrap ext r2))"
    unfolding OfflineReporter_init_def by (cases "reference_pdb_file c") simp_all
next
  assume a: "reference_pdb_file c = Some path \<and>
        universe_positions ext path (mda_selection c) = Inr p \<and>
        contact_matrix ext p (threshold c) = Inr cm \<and>
        (case wrap_pdb_file c of
           None \<Rightarrow> True
         | Some wpath \<Rightarrow> wrap_nsp10_16 ext wpath (mda_selection c) = Inr w)"
  have c0: "cfg (init_batch (fresh c)) = c" by (simp add: cfg_init_batch fresh_def)
  define r1 where "r1 = (init_batch (fresh c))\<lparr>reference_positions := Some p\<rparr>"
  have 1: "init_reference_positions ext (init_batch (fresh c)) = Inr r1"
    using a c0 by (simp add: init_reference_positions_def r1_def)
  have c1: "cfg r1 = c" using c0 by (simp add: r1_def)
  obtain r2 where 2: "init_reference_contact_map ext r1 = Inr r2"
    using a c1 by (cases "fraction_of_contacts c")
      (simp_all add: init_reference_contact_map_def compute_contact_map_def)
  have c2: "cfg r2 = c" using init_reference_contact_map_Inr(2) [OF 2] c1 by simp
  obtain r3 where 3: "init_wrap ext r2 = Inr r3"
    using a c2 by (cases "wrap_pdb_file c") (simp_all add: init_wrap_def)
  show "\<exists>r. OfflineReporter_init ext c = Inr r"
    using a 1 2 3 by (simp add: OfflineReporter_init_def)
qed

theorem init_requires_reference_witness:
  "(fraction_of_contacts (ex_config\<lparr>fraction_of_contacts := True\<rparr>)
      \<and> reference_pdb_file (ex_config\<lparr>fraction_of_contacts := True\<rparr>) = None)
   \<and> (\<exists>msg. OfflineReporter_init ex_ext (ex_config\<lparr>fraction_of_contacts := True\<rparr>)
              = Inl (ValueError msg))
   \<and> (\<exists>msg. OfflineReporter_init ex_ext (ex_config\<lparr>contact_map := True\<rparr>)
              = Inl (ValueError msg))
   \<and> reference_pdb_file ex_config_full = Some ''ref.pdb''
   \<and> (\<exists>r. OfflineReporter_init ex_ext ex_config_full = Inr r)"
proof -
  have "\<exists>msg. OfflineReporter_init ex_ext (ex_config\<lparr>fraction_of_contacts := True\<rparr>)
              = Inl (ValueError msg)"
    using init_requires_reference [of "ex_config\<lparr>fraction_of_contacts := True\<rparr>" ex_ext]
    by (simp add: ex_config_def)
  moreover have "\<exists>msg. OfflineReporter_init ex_ext (ex_config\<lparr>contact_map := True\<rparr>)
              = Inl (ValueError msg)"
    using init_requires_reference [of "ex_config\<lparr>contact_map := True\<rparr>" ex_ext]
    by (simp add: ex_config_def)
  moreover have "\<exists>r. OfflineReporter_init ex_ext ex_config_full = Inr r"
  proof -
    have "reference_pdb_file ex_config_full = Some ''ref.pdb'' \<and>
        universe_positions ex_ext ''ref.pdb'' (mda_selection ex_config_full)
          = Inr [(0, 0, 0), (1, 0, 0)] \<and>
        contact_matrix ex_ext [(0, 0, 0), (1, 0, 0)] (threshold ex_config_full)
          = Inr \<lparr>coo_row = [0, 1], coo_col = [1, 0]\<rparr> \<and>
        (case wrap_pdb_file ex_config_full of
           None \<Rightarrow> True
         | Some wpath \<Rightarrow>
             wrap_nsp10_16 ex_ext wpath (mda_selection ex_config_full) = Inr (\<lambda>p. Inr p))"
      by (simp add: ex_config_full_def ex_config_def ex_ext_def)
    then show ?thesis
      using init_requires_reference [where c = ex_config_full and ext = ex_ext
          and path = "''ref.pdb''" and p = "[(0, 0, 0), (1, 0, 0)]"
          and cm = "\<lparr>coo_row = [0, 1], coo_col = [1, 0]\<rparr>" and w = "\<lambda>p. Inr p"]
      by blast
  qed
  ultimately show ?thesis by (simp add: ex_config_full_def ex_config_def)
qed


subsection \<open>One call of report\<close>

lemma buffers_hold_num_frames [simp]:
  "buffers_hold (r\<lparr>num_frames := x\<rparr>) k = buffers_hold r k"
  by (simp add: buffers_hold_def buffers_at_def)

lemma fixed_part_num_frames [simp]: "fixed_part (r\<lparr>num_frames := x\<rparr>) = fixed_part r"
  by (simp add: fixed_part_def)

lemma fixed_part_cfg: "fixed_part r' = fixed_part r \<Longrightarrow> cfg r' = cfg r"
  by (simp add: fixed_part_def)

lemma fixed_part_file_name: "fixed_part r' = fixed_part r \<Longrightarrow> file_name r' = file_name r"
  by (simp add: fixed_part_def file_name_def)

lemma report_fixed_part:
  assumes "report ext fault sim st (r, fs) = (e, (r', fs'))"
  shows "fixed_part r' = fixed_part r"
  using assms
proof (cases rule: report_cases)
  case (select_fails err)
  then show ?thesis by simp
next
  case (collect_fails p err)
  then show ?thesis using collect_keeps(1) by blast
next
  case (no_flush p r1)
  then show ?thesis using collect_keeps(1) [OF no_flush(2)] by simp
next
  case (flush_fails p r1 err)
  then show ?thesis
    using collect_keeps(1) [OF flush_fails(2)] flush_keeps(1) [OF flush_fails(4)] by simp
next
  case (flushed p r1 r3)
  then show ?thesis
    using collect_keeps(1) [OF flushed(2)] flush_keeps(1) [OF flushed(4)]
    by (simp add: fixed_part_init_batch)
qed

lemma report_other_paths:
  assumes "report ext fault sim st (r, fs) = (e, (r', fs'))" and "p \<noteq> file_name r"
  shows "fs' p = fs p"
  using assms(1)
proof (cases rule: report_cases)
  case (flush_fails q r1 err)
  have "file_name (r1\<lparr>num_frames := num_frames r + 1\<rparr>) = file_name r"
    using collect_keeps(1) [OF flush_fails(2)] by (intro fixed_part_file_name) simp
  then show ?thesis using flush_keeps(3) [OF flush_fails(4)] assms(2) by simp
next
  case (flushed q r1 r3)
  have "file_name (r1\<lparr>num_frames := num_frames r + 1\<rparr>) = file_name r"
    using collect_keeps(1) [OF flushed(2)] by (intro fixed_part_file_name) simp
  then show ?thesis using flush_keeps(3) [OF flushed(4)] assms(2) by simp
qed simp_all

lemma report_no_flush:
  assumes "report ext fault sim st (r, fs) = (e, (r', fs'))"
    and "num_frames r + 1 \<noteq> frames_per_h5 (cfg r)"
  shows "fs' = fs"
    and "num_frames r' = (if e = None then num_frames r + 1 else num_frames r)"
    and "e = None \<Longrightarrow> buffers_hold r k \<Longrightarrow> ref_consistent r \<Longrightarrow> buffers_hold r' (Suc k)"
proof -
  show "fs' = fs" using assms by (cases rule: report_cases) simp_all
  show "num_frames r' = (if e = None then num_frames r + 1 else num_frames r)"
    using assms
  proof (cases rule: report_cases)
    case (collect_fails p err)
    then show ?thesis using collect_keeps(2) [OF collect_fails(2)] by simp
  qed simp_all
  show "buffers_hold r' (Suc k)" if "e = None" "buffers_hold r k" "ref_consistent r"
    using assms(1)
  proof (cases rule: report_cases)
    case (no_flush p r1)
    then show ?thesis using collect_buffers [OF no_flush(2) that(2,3)] by simp
  next
    case (flushed p r1 r3)
    then show ?thesis using assms(2) by simp
  qed (use that in simp_all)
qed

lemma slots_hold_flush:
  assumes f: "flush fault (r, fs) = (None, (r', fs'))"
    and b: "buffers_hold r n" and rc: "ref_consistent r"
  shows "\<exists>h. fs' = fs(file_name r \<mapsto> h) \<and> slots_hold r h n"
proof -
  from flush_None [OF f] obtain h where
    fb: "flush_body fault (r, empty_h5) = (None, (r', h))" and fs': "fs' = fs(file_name r \<mapsto> h)"
    by blast
  note s = flush_body_None [OF fb]
  have 1: "len_opt (contact_map_rows_slot h) = (if contact_map (cfg r) then Some n else None)"
    using s(1) b by (simp add: buffers_hold_def buffers_at_def len_opt_def)
  have 2: "len_opt (contact_map_cols_slot h) = (if contact_map (cfg r) then Some n else None)"
    using s(2) b by (simp add: buffers_hold_def buffers_at_def len_opt_def)
  have 3: "len_opt (rmsd_slot h)
             = (if reference_pdb_file (cfg r) \<noteq> None then Some n else None)"
    using s(3) b rc by (auto simp: buffers_hold_def buffers_at_def len_opt_def ref_consistent_def)
  have 4: "len_opt (fraction_of_contacts_slot h)
             = (if fraction_of_contacts (cfg r) then Some n else None)"
    using s(4) b by (simp add: buffers_hold_def buffers_at_def len_opt_def)
  have 5: "map_option (\<lambda>a. fst (dims a)) (point_cloud_slot h)
             = (if point_cloud (cfg r) then Some n else None)"
  proof (cases "point_cloud (cfg r)")
    case True
    from s(5) [OF True] obtain buf a where
      ba: "point_cloud_data r = Some buf" "np_transpose_021 buf = Inr a"
        "point_cloud_slot h = Some a"
      by blast
    from b True have "pc_len (point_cloud_data r) = Some n"
      by (simp add: buffers_hold_def buffers_at_def)
    then obtain xs where xs: "point_cloud_data r = Some (PcList xs)" "length xs = n"
      by (auto simp: pc_len_Some)
    with ba have "np_transpose_021 (PcList xs) = Inr a" by simp
    from np_transpose_PcList(3) [OF this] have "fst (dims a) = n" using xs by simp
    then show ?thesis using True ba by simp
  next
    case False
    then show ?thesis using s(6) by simp
  qed
  show ?thesis using fs' 1 2 3 4 5 by (auto simp: slots_hold_def)
qed

lemma report_flush:
  assumes "report ext fault sim st (r, fs) = (None, (r', fs'))"
    and "num_frames r + 1 = frames_per_h5 (cfg r)"
    and "buffers_hold r k" and "ref_consistent r"
  shows "reset_state r' \<and> (\<exists>h. fs' = fs(file_name r \<mapsto> h) \<and> slots_hold r h (Suc k))"
  using assms(1)
proof (cases rule: report_cases)
  case (no_flush p r1)
  then show ?thesis using assms(2) by simp
next
  case (flushed p r1 r3)
  define r2 where "r2 = r1\<lparr>num_frames := num_frames r + 1\<rparr>"
  have f: "flush fault (r2, fs) = (None, (r3, fs'))" using flushed(4) by (simp add: r2_def)
  have fp: "fixed_part r2 = fixed_part r"
    using collect_keeps(1) [OF flushed(2)] by (simp add: r2_def)
  have b2: "buffers_hold r2 (Suc k)"
    using collect_buffers [OF flushed(2) assms(3,4)] by (simp add: r2_def)
  have rc2: "ref_consistent r2" using fixed_part_ref_consistent [OF fp] assms(4) by simp
  have fp3: "fixed_part r3 = fixed_part r" using flush_keeps(1) [OF f] fp by simp
  have "fixed_part (init_batch r3) = fixed_part r"
    using fp3 by (simp add: fixed_part_init_batch)
  then have "ref_consistent (init_batch r3)"
    using fixed_part_ref_consistent assms(4) by blast
  then have 1: "reset_state r'"
    using flushed(6) by (simp add: reset_state_def num_frames_init_batch buffers_hold_init_batch)
  from slots_hold_flush [OF f b2 rc2] obtain h where
    h: "fs' = fs(file_name r2 \<mapsto> h)" "slots_hold r2 h (Suc k)"
    by blast
  have "file_name r2 = file_name r" using fp by (rule fixed_part_file_name)
  moreover have "slots_hold r h (Suc k)"
    using h(2) fixed_part_cfg [OF fp] by (simp add: slots_hold_def)
  ultimately have "\<exists>h. fs' = fs(file_name r \<mapsto> h) \<and> slots_hold r h (Suc k)"
    using h(1) by auto
  with 1 show ?thesis by simp
qed simp_all


subsection \<open>Runs of report\<close>

lemma run_reports_Cons:
  assumes "report ext fault sim st (r, fs) = (e, (r1, fs1))"
  shows "run_reports ext ((fault, sim, st) # calls) (r, fs) =
           (case e of None \<Rightarrow> run_reports ext calls (r1, fs1) | Some x \<Rightarrow> (Some x, (r1, fs1)))"
  using assms by (cases e) simp_all

lemma run_reports_no_flush:
  assumes "\<forall>j. 0 < j \<and> j \<le> int (length calls) \<longrightarrow> num_frames r + j \<noteq> frames_per_h5 (cfg r)"
  shows "snd (snd (run_reports ext calls (r, fs))) = fs"
  using assms
proof (induction calls arbitrary: r)
  case Nil
  then show ?case by simp
next
  case (Cons c calls)
  obtain fault sim st where c: "c = (fault, sim, st)" by (cases c)
  obtain e r1 fs1 where rep: "report ext fault sim st (r, fs) = (e, (r1, fs1))"
    by (cases "report ext fault sim st (r, fs)") auto
  have nf: "num_frames r + 1 \<noteq> frames_per_h5 (cfg r)" using Cons.prems by simp
  note a = report_no_flush(1,2) [OF rep nf]
  have cfg1: "cfg r1 = cfg r" using report_fixed_part [OF rep] by (rule fixed_part_cfg)
  show ?case
  proof (cases e)
    case (Some x)
    then show ?thesis using run_reports_Cons [OF rep] a c by simp
  next
    case None
    have "\<forall>j. 0 < j \<and> j \<le> int (length calls)
            \<longrightarrow> num_frames r1 + j \<noteq> frames_per_h5 (cfg r1)"
    proof (intro allI impI)
      fix j :: int
      assume j: "0 < j \<and> j \<le> int (length calls)"
      then have "0 < j + 1 \<and> j + 1 \<le> int (length (c # calls))" by simp
      with Cons.prems have "num_frames r + (j + 1) \<noteq> frames_per_h5 (cfg r)" by blast
      then show "num_frames r1 + j \<noteq> frames_per_h5 (cfg r1)"
        using a(2) None cfg1 by simp
    qed
    from Cons.IH [OF this] show ?thesis using run_reports_Cons [OF rep] a c None by simp
  qed
qed

lemma report_step:
  assumes "report ext fault sim st (r, fs) = (None, (r', fs'))"
    and "num_frames r = int k" and "buffers_hold r k" and "ref_consistent r"
  shows "num_frames r' = int (if int k + 1 = frames_per_h5 (cfg r) then 0 else Suc k)"
    and "buffers_hold r' (if int k + 1 = frames_per_h5 (cfg r) then 0 else Suc k)"
    and "ref_consistent r'" and "fixed_part r' = fixed_part r"
proof -
  show fp: "fixed_part r' = fixed_part r" using assms(1) by (rule report_fixed_part)
  show "ref_consistent r'" using fixed_part_ref_consistent [OF fp] assms(4) by simp
  show "num_frames r' = int (if int k + 1 = frames_per_h5 (cfg r) then 0 else Suc k)"
  proof (cases "int k + 1 = frames_per_h5 (cfg r)")
    case True
    then have "reset_state r'" using report_flush [OF assms(1) _ assms(3,4)] assms(2) by simp
    then show ?thesis using True by (simp add: reset_state_def)
  next
    case False
    then show ?thesis using report_no_flush(2) [OF assms(1)] assms(2) by simp
  qed
  show "buffers_hold r' (if int k + 1 = frames_per_h5 (cfg r) then 0 else Suc k)"
  proof (cases "int k + 1 = frames_per_h5 (cfg r)")
    case True
    then have "reset_state r'" using report_flush [OF assms(1) _ assms(3,4)] assms(2) by simp
    then show ?thesis using True by (simp add: reset_state_def)
  next
    case False
    then show ?thesis using report_no_flush(3) [OF assms(1) _ _ assms(3,4)] assms(2) by simp
  qed
qed

text \<open>The counter after \<open>m\<close> more frames, from \<open>k\<close>, for a batch size \<open>n\<close>.\<close>

lemma counter_step:
  fixes n :: int and k m :: nat
  assumes "0 < n \<longrightarrow> int k < n"
  shows "(if 0 < n then ((if int k + 1 = n then 0 else Suc k) + m) mod nat n
          else (if int k + 1 = n then 0 else Suc k) + m)
       = (if 0 < n then (k + Suc m) mod nat n else k + Suc m)"
proof (cases "int k + 1 = n")
  case True
  then have n: "nat n = Suc k" "0 < n" by simp_all
  have "Suc (k + m) mod Suc k = (Suc k + m) mod Suc k" by simp
  also have "\<dots> = m mod Suc k" by (rule mod_add_self1)
  finally show ?thesis using True n by simp
next
  case False
  then show ?thesis by simp
qed

lemma run_reports_counter:
  assumes "run_reports ext calls (r, fs) = (None, (r', fs'))"
    and "num_frames r = int k" and "buffers_hold r k" and "ref_consistent r"
    and "0 < frames_per_h5 (cfg r) \<longrightarrow> int k < frames_per_h5 (cfg r)"
  shows "num_frames r' = int (if 0 < frames_per_h5 (cfg r)
                              then (k + length calls) mod nat (frames_per_h5 (cfg r))
                              else k + length calls)
       \<and> buffers_hold r' (if 0 < frames_per_h5 (cfg r)
                          then (k + length calls) mod nat (frames_per_h5 (cfg r))
                          else k + length calls)
       \<and> ref_consistent r' \<and> fixed_part r' = fixed_part r"
  using assms
proof (induction calls arbitrary: r fs k)
  case Nil
  then show ?case by auto
next
  case (Cons c calls)
  obtain fault sim st where c: "c = (fault, sim, st)" by (cases c)
  obtain e r1 fs1 where rep: "report ext fault sim st (r, fs) = (e, (r1, fs1))"
    by (cases "report ext fault sim st (r, fs)") auto
  have e: "e = None"
    using Cons.prems(1) run_reports_Cons [OF rep, of calls] c by (cases e) simp_all
  then have run: "run_reports ext calls (r1, fs1) = (None, (r', fs'))"
    using Cons.prems(1) run_reports_Cons [OF rep, of calls] c by simp
  define n where "n = frames_per_h5 (cfg r)"
  define k1 where "k1 = (if int k + 1 = n then 0 else Suc k)"
  have s: "num_frames r1 = int k1" "buffers_hold r1 k1" "ref_consistent r1"
    "fixed_part r1 = fixed_part r"
    using report_step [OF rep [unfolded e] Cons.prems(2,3,4)] by (simp_all add: k1_def n_def)
  have cfg1: "cfg r1 = cfg r" using s(4) by (rule fixed_part_cfg)
  have bound: "0 < frames_per_h5 (cfg r1) \<longrightarrow> int k1 < frames_per_h5 (cfg r1)"
    using Cons.prems(5) by (auto simp: cfg1 k1_def n_def)
  have ih: "num_frames r' = int (if 0 < n then (k1 + length calls) mod nat n
                                 else k1 + length calls)
       \<and> buffers_hold r' (if 0 < n then (k1 + length calls) mod nat n else k1 + length calls)
       \<and> ref_consistent r' \<and> fixed_part r' = fixed_part r1"
    using Cons.IH [OF run s(1) s(2) s(3) bound] unfolding cfg1 n_def by blast
  have cs: "(if 0 < n then (k1 + length calls) mod nat n else k1 + length calls)
          = (if 0 < n then (k + length (c # calls)) mod nat n else k + length (c # calls))"
    using counter_step [of "frames_per_h5 (cfg r)" k "length calls", OF Cons.prems(5)]
    unfolding k1_def n_def by simp
  show ?case
    using ih s(4) unfolding cs n_def [symmetric] by simp
qed


subsection \<open>The concrete runs\<close>

lemma ex_select_positions:
  "openmm_selection c = [''CA''] \<Longrightarrow>
   select_positions ex_ext c ex_sim (ex_state x) = Inr [(0, 0, 0), (x, 0, 0)]"
  by (simp add: select_positions_def ex_ext_def ex_sim_def ex_state_def map_vec3_def)

lemma ex_init: "OfflineReporter_init ex_ext ex_config = Inr ex_r0"
  by (simp add: OfflineReporter_init_def init_reference_positions_def
      init_reference_contact_map_def init_wrap_def ex_r0_def fresh_def
      init_batch_def Let_def ex_config_def)

lemma ex_init_full: "OfflineReporter_init ex_ext ex_config_full = Inr ex_r_full"
  by (simp add: OfflineReporter_init_def init_reference_positions_def
      init_reference_contact_map_def init_wrap_def ex_r_full_def fresh_def
      init_batch_def Let_def ex_config_full_def ex_config_def ex_ext_def compute_contact_map_def)

lemma ex_collect:
  "cfg r = ex_config \<Longrightarrow> reference_positions r = None \<Longrightarrow>
   point_cloud_data r = Some (PcList xs) \<Longrightarrow>
   collect ex_ext p r = (None, r\<lparr>point_cloud_data := Some (PcList (xs @ [p]))\<rparr>)"
  by (simp add: collect_def collect_contacts_def andthen_def py_if_def collect_point_cloud_def
      ex_config_def)


lemma ex_report_1:
  "report ex_ext None ex_sim (ex_state 1) (ex_r0, fs) =
     (None, (ex_r0\<lparr>num_frames := 1,
                   point_cloud_data := Some (PcList [[(0, 0, 0), (1, 0, 0)]])\<rparr>, fs))"
  by (simp add: report_def ex_select_positions ex_collect ex_r0_def ex_config_def)

lemma upt_0_3: "[0..<3] = [0, 1, 2::nat]"
  by (simp add: upt_rec)

lemma ex_flush:
  "flush None (ex_r0\<lparr>num_frames := 2,
       point_cloud_data := Some (PcList [[(0, 0, 0), (1, 0, 0)], [(0, 0, 0), (2, 0, 0)]])\<rparr>, fs) =
     (None, (ex_r0\<lparr>num_frames := 2,
       point_cloud_data := Some (PcArray \<lparr>dims = (2, 3, 2),
          elems = [[[0, 1], [0, 0], [0, 0]], [[0, 2], [0, 0], [0, 0]]]\<rparr>)\<rparr>,
       fs(''out.h5'' \<mapsto> empty_h5\<lparr>point_cloud_slot := Some \<lparr>dims = (2, 3, 2),
          elems = [[[0, 1], [0, 0], [0, 0]], [[0, 2], [0, 0], [0, 0]]]\<rparr>\<rparr>)))"
  by (simp add: flush_def flush_body_def andthen_def py_if_def flush_point_cloud_def
      np_transpose_021_def np_array_def transpose_021_def vec3_list_def io_write_def
      write_point_cloud_def file_name_def ex_r0_def ex_config_def upt_0_3 numeral_2_eq_2)

lemma ex_report_2:
  "report ex_ext None ex_sim (ex_state 2)
     (ex_r0\<lparr>num_frames := 1,
            point_cloud_data := Some (PcList [[(0, 0, 0), (1, 0, 0)]])\<rparr>, fs) =
     (None, (ex_r0,
       fs(''out.h5'' \<mapsto> empty_h5\<lparr>point_cloud_slot := Some \<lparr>dims = (2, 3, 2),
          elems = [[[0, 1], [0, 0], [0, 0]], [[0, 2], [0, 0], [0, 0]]]\<rparr>\<rparr>)))"
  by (simp add: report_def ex_select_positions ex_collect flush_def flush_body_def andthen_def
      py_if_def flush_point_cloud_def np_transpose_021_def np_array_def transpose_021_def
      vec3_list_def io_write_def write_point_cloud_def file_name_def init_batch_def Let_def
      ex_r0_def ex_config_def upt_0_3 numeral_2_eq_2)

lemma ex_run_3:
  "run_reports ex_ext [ex_call 1, ex_call 2, ex_call 3] (ex_r0, fs) =
     (None, (ex_r0\<lparr>num_frames := 1,
                   point_cloud_data := Some (PcList [[(0, 0, 0), (3, 0, 0)]])\<rparr>,
       fs(''out.h5'' \<mapsto> empty_h5\<lparr>point_cloud_slot := Some \<lparr>dims = (2, 3, 2),
          elems = [[[0, 1], [0, 0], [0, 0]], [[0, 2], [0, 0], [0, 0]]]\<rparr>\<rparr>)))"
proof -
  have 3: "report ex_ext None ex_sim (ex_state 3) (ex_r0, fs') =
     (None, (ex_r0\<lparr>num_frames := 1,
                   point_cloud_data := Some (PcList [[(0, 0, 0), (3, 0, 0)]])\<rparr>, fs'))" for fs'
    by (simp add: report_def ex_select_positions ex_collect ex_r0_def ex_config_def)
  show ?thesis by (simp add: ex_call_def ex_report_1 ex_report_2 3)
qed


lemma run_reports_append:
  "run_reports ext (xs @ ys) s =
     (case run_reports ext xs s of
        (None, s') \<Rightarrow> run_reports ext ys s'
      | (Some e, s') \<Rightarrow> (Some e, s'))"
proof (induction xs arbitrary: s)
  case Nil
  then show ?case by simp
next
  case (Cons c xs)
  obtain fault sim st where c: "c = (fault, sim, st)" by (cases c)
  obtain e s1 where rep: "report ext fault sim st s = (e, s1)"
    by (cases "report ext fault sim st s")
  show ?case using Cons.IH [of s1] by (cases e) (simp_all add: c rep)
qed

lemma reset_state_run_prefix:
  assumes "num_frames r0 = 0" and "int m < frames_per_h5 (cfg r0)" and "length calls \<le> m"
  shows "snd (snd (run_reports ext calls (r0, fs))) = fs"
  using assms by (intro run_reports_no_flush) auto

lemma flush_batch_written:
  assumes "flush fault (r, fs) = (None, (r', fs'))"
  shows "\<exists>h. fs' = fs(file_name r \<mapsto> h) \<and> batch_written r h"
proof -
  from flush_None [OF assms] obtain h where
    fb: "flush_body fault (r, empty_h5) = (None, (r', h))" and fs': "fs' = fs(file_name r \<mapsto> h)"
    by blast
  note s = flush_body_None [OF fb]
  have "point_cloud_slot h
          = (if point_cloud (cfg r) then pc_array (point_cloud_data r) else None)"
  proof (cases "point_cloud (cfg r)")
    case True
    from s(5) [OF True] show ?thesis using True by (auto simp: pc_array_def)
  next
    case False
    then show ?thesis using s(6) by simp
  qed
  then have "batch_written r h" using s(1,2,3,4) by (simp add: batch_written_def)
  then show ?thesis using fs' by blast
qed

lemma report_flush_written:
  assumes "report ext fault sim st (r, fs) = (None, (r', fs'))"
    and "num_frames r + 1 = frames_per_h5 (cfg r)"
  shows "\<exists>p rc h. select_positions ext (cfg r) sim st = Inr p
           \<and> collect ext p r = (None, rc)
           \<and> fs' = fs(file_name r \<mapsto> h) \<and> batch_written rc h
           \<and> num_frames r' = 0 \<and> buffers_hold r' 0"
  using assms(1)
proof (cases rule: report_cases)
  case (no_flush p r1)
  then show ?thesis using assms(2) by simp
next
  case (flushed p r1 r3)
  define r2 where "r2 = r1\<lparr>num_frames := num_frames r + 1\<rparr>"
  have f: "flush fault (r2, fs) = (None, (r3, fs'))" using flushed(4) by (simp add: r2_def)
  have fp: "fixed_part r2 = fixed_part r"
    using collect_keeps(1) [OF flushed(2)] by (simp add: r2_def)
  from flush_batch_written [OF f] obtain h where
    h: "fs' = fs(file_name r2 \<mapsto> h)" "batch_written r2 h"
    by blast
  have "batch_written r1 h" using h(2) by (simp add: batch_written_def r2_def)
  moreover have "file_name r2 = file_name r" using fp by (rule fixed_part_file_name)
  moreover have "num_frames r' = 0 \<and> buffers_hold r' 0"
    using flushed(6) by (simp add: num_frames_init_batch buffers_hold_init_batch)
  ultimately show ?thesis using flushed(1,2) h(1) by auto
qed simp_all

text \<open>
  C1. From a reset accumulator and for a batch size \<open>n > 0\<close>, a run of exactly \<open>n\<close> report
  calls that return ends with a flush and a reset: the file system is the one before the
  run with the output file replaced by a file holding a slot of \<open>n\<close> entries for every
  enabled buffer, the counter is 0 and every enabled buffer is empty. No shorter run
  from the reset writes anything, and no single call of \<open>report\<close> whose counter, once
  incremented, differs from \<open>n\<close> writes anything. A call whose incremented counter is \<open>n\<close>
  and that returns has written the file with every enabled buffer as it was after this
  call's frame was collected, and has left the counter at 0 and every enabled buffer empty.
\<close>

theorem flush_after_frames_per_batch:
  assumes "reset_state r0" and "0 < frames_per_h5 (cfg r0)"
    and "int (length calls) = frames_per_h5 (cfg r0)"
    and "run_reports ext calls (r0, fs) = (None, (r, fs'))"
  shows "reset_state r
       \<and> (\<exists>h. fs' = fs(file_name r0 \<mapsto> h) \<and> slots_hold r0 h (length calls))
       \<and> (\<forall>m < length calls. snd (snd (run_reports ext (take m calls) (r0, fs))) = fs)
       \<and> (\<forall>r1 fs1 fault sim st.
             num_frames r1 + 1 \<noteq> frames_per_h5 (cfg r1) \<longrightarrow>
             snd (snd (report ext fault sim st (r1, fs1))) = fs1)
       \<and> (\<forall>r1 fs1 fault sim st r2 fs2.
             num_frames r1 + 1 = frames_per_h5 (cfg r1)
             \<and> report ext fault sim st (r1, fs1) = (None, (r2, fs2)) \<longrightarrow>
             (\<exists>p rc h. select_positions ext (cfg r1) sim st = Inr p
                \<and> collect ext p r1 = (None, rc)
                \<and> fs2 = fs1(file_name r1 \<mapsto> h) \<and> batch_written rc h
                \<and> num_frames r2 = 0 \<and> buffers_hold r2 0))"
proof -
  define n where "n = length calls"
  have n: "0 < n" "frames_per_h5 (cfg r0) = int n" using assms(2,3) by (auto simp: n_def)
  then obtain c where calls: "calls = butlast calls @ [c]"
    by (cases calls rule: rev_cases) (auto simp: n_def)
  obtain fault sim st where c: "c = (fault, sim, st)" by (cases c)
  have lb: "length (butlast calls) = n - 1" by (simp add: n_def)
  obtain e1 r1 fs1 where run1: "run_reports ext (butlast calls) (r0, fs) = (e1, (r1, fs1))"
    by (cases "run_reports ext (butlast calls) (r0, fs)") auto
  have split: "run_reports ext calls (r0, fs) =
     (case run_reports ext (butlast calls) (r0, fs) of
        (None, s') \<Rightarrow> run_reports ext [c] s'
      | (Some e, s') \<Rightarrow> (Some e, s'))"
    using run_reports_append [of ext "butlast calls" "[c]" "(r0, fs)"] calls by simp
  have e1: "e1 = None" using split run1 assms(4) by (cases e1) simp_all
  have last: "report ext fault sim st (r1, fs1) = (None, (r, fs'))"
  proof -
    obtain e2 s2 where rep: "report ext fault sim st (r1, fs1) = (e2, s2)"
      by (cases "report ext fault sim st (r1, fs1)")
    then show ?thesis using split run1 e1 assms(4) c by (cases e2) simp_all
  qed
  have r0: "num_frames r0 = int 0" "buffers_hold r0 0" "ref_consistent r0"
    using assms(1) by (simp_all add: reset_state_def)
  have "num_frames r1 = int (if 0 < frames_per_h5 (cfg r0)
                              then (0 + length (butlast calls)) mod nat (frames_per_h5 (cfg r0))
                              else 0 + length (butlast calls))
       \<and> buffers_hold r1 (if 0 < frames_per_h5 (cfg r0)
                          then (0 + length (butlast calls)) mod nat (frames_per_h5 (cfg r0))
                          else 0 + length (butlast calls))
       \<and> ref_consistent r1 \<and> fixed_part r1 = fixed_part r0"
    using run1 [unfolded e1] r0 n by (intro run_reports_counter) auto
  then have mid: "num_frames r1 = int (n - 1)" "buffers_hold r1 (n - 1)" "ref_consistent r1"
    "fixed_part r1 = fixed_part r0"
    using n lb by simp_all
  have fs1: "fs1 = fs"
    using reset_state_run_prefix [of r0 "n - 1" "butlast calls" ext fs] r0(1) n lb run1
    by simp
  have cfg1: "cfg r1 = cfg r0" using mid(4) by (rule fixed_part_cfg)
  have full: "num_frames r1 + 1 = frames_per_h5 (cfg r1)" using mid(1) n cfg1 by simp
  from report_flush [OF last full mid(2,3)]
  have "reset_state r" and "\<exists>h. fs' = fs1(file_name r1 \<mapsto> h) \<and> slots_hold r1 h (Suc (n - 1))"
    by simp_all
  moreover have "file_name r1 = file_name r0" using mid(4) by (rule fixed_part_file_name)
  moreover have "slots_hold r1 h k = slots_hold r0 h k" for h k
    by (simp add: slots_hold_def cfg1)
  ultimately have a: "reset_state r"
    and b: "\<exists>h. fs' = fs(file_name r0 \<mapsto> h) \<and> slots_hold r0 h (length calls)"
    using fs1 n by (simp_all add: n_def)
  have p: "\<forall>m < length calls. snd (snd (run_reports ext (take m calls) (r0, fs))) = fs"
  proof (intro allI impI)
    fix m assume "m < length calls"
    then show "snd (snd (run_reports ext (take m calls) (r0, fs))) = fs"
      using r0(1) n by (intro reset_state_run_prefix [of r0 m]) (simp_all add: n_def)
  qed
  have q: "\<forall>r1 fs1 fault sim st.
             num_frames r1 + 1 \<noteq> frames_per_h5 (cfg r1) \<longrightarrow>
             snd (snd (report ext fault sim st (r1, fs1))) = fs1"
  proof (intro allI impI)
    fix r1 :: "'a reporter" and fs1 fault sim st
    assume nf: "num_frames r1 + 1 \<noteq> frames_per_h5 (cfg r1)"
    obtain e r2 fs2 where rep: "report ext fault sim st (r1, fs1) = (e, (r2, fs2))"
      by (cases "report ext fault sim st (r1, fs1)") auto
    from report_no_flush(1) [OF rep nf] rep
    show "snd (snd (report ext fault sim st (r1, fs1))) = fs1" by simp
  qed
  have w: "\<forall>r1 fs1 fault sim st r2 fs2.
             num_frames r1 + 1 = frames_per_h5 (cfg r1)
             \<and> report ext fault sim st (r1, fs1) = (None, (r2, fs2)) \<longrightarrow>
             (\<exists>p rc h. select_positions ext (cfg r1) sim st = Inr p
                \<and> collect ext p r1 = (None, rc)
                \<and> fs2 = fs1(file_name r1 \<mapsto> h) \<and> batch_written rc h
                \<and> num_frames r2 = 0 \<and> buffers_hold r2 0)"
    using report_flush_written by blast
  from a b p q w show ?thesis by (intro conjI)
qed


lemma ex_r0_reset: "reset_state ex_r0"
  using OfflineReporter_init_Inr(1) [OF ex_init] .

lemma ex_r_full_reset: "reset_state ex_r_full"
  using OfflineReporter_init_Inr(1) [OF ex_init_full] .

lemma ex_run_2:
  "run_reports ex_ext [ex_call 1, ex_call 2] (ex_r0, fs) =
     (None, (ex_r0,
       fs(''out.h5'' \<mapsto> empty_h5\<lparr>point_cloud_slot := Some \<lparr>dims = (2, 3, 2),
          elems = [[[0, 1], [0, 0], [0, 0]], [[0, 2], [0, 0], [0, 0]]]\<rparr>\<rparr>)))"
  by (simp add: ex_call_def ex_report_1 ex_report_2)

lemma ex_run_1:
  "run_reports ex_ext [ex_call 1] (ex_r0, fs) =
     (None, (ex_r0\<lparr>num_frames := 1,
                   point_cloud_data := Some (PcList [[(0, 0, 0), (1, 0, 0)]])\<rparr>, fs))"
  by (simp add: ex_call_def ex_report_1)

theorem flush_after_frames_per_batch_witness:
  "reset_state ex_r0 \<and> 0 < frames_per_h5 (cfg ex_r0)
   \<and> int (length [ex_call 1, ex_call 2]) = frames_per_h5 (cfg ex_r0)
   \<and> run_reports ex_ext [ex_call 1, ex_call 2] (ex_r0, Map.empty) =
       (None, (ex_r0,
         [''out.h5'' \<mapsto> empty_h5\<lparr>point_cloud_slot := Some \<lparr>dims = (2, 3, 2),
            elems = [[[0, 1], [0, 0], [0, 0]], [[0, 2], [0, 0], [0, 0]]]\<rparr>\<rparr>]))
   \<and> slots_hold ex_r0 (empty_h5\<lparr>point_cloud_slot := Some \<lparr>dims = (2, 3, 2),
            elems = [[[0, 1], [0, 0], [0, 0]], [[0, 2], [0, 0], [0, 0]]]\<rparr>\<rparr>) 2
   \<and> snd (snd (run_reports ex_ext [ex_call 1] (ex_r0, Map.empty))) = Map.empty
   \<and> run_reports ex_ext [ex_call 1, ex_call 2, ex_call 3] (ex_r0, Map.empty) =
       (None, (ex_r0\<lparr>num_frames := 1,
                     point_cloud_data := Some (PcList [[(0, 0, 0), (3, 0, 0)]])\<rparr>,
         [''out.h5'' \<mapsto> empty_h5\<lparr>point_cloud_slot := Some \<lparr>dims = (2, 3, 2),
            elems = [[[0, 1], [0, 0], [0, 0]], [[0, 2], [0, 0], [0, 0]]]\<rparr>\<rparr>]))"
proof -
  have 2: "0 < frames_per_h5 (cfg ex_r0)" by (simp add: ex_r0_def ex_config_def)
  have 3: "int (length [ex_call 1, ex_call 2]) = frames_per_h5 (cfg ex_r0)"
    by (simp add: ex_r0_def ex_config_def)
  note t = flush_after_frames_per_batch [OF ex_r0_reset 2 3 ex_run_2 [of Map.empty]]
  from t [THEN conjunct2, THEN conjunct1] obtain h where
    h: "[''out.h5'' \<mapsto> empty_h5\<lparr>point_cloud_slot := Some \<lparr>dims = (2, 3, 2),
            elems = [[[0, 1], [0, 0], [0, 0]], [[0, 2], [0, 0], [0, 0]]]\<rparr>\<rparr>]
          = Map.empty(file_name ex_r0 \<mapsto> h)"
      "slots_hold ex_r0 h (length [ex_call 1, ex_call 2])"
    by blast
  have "file_name ex_r0 = ''out.h5''" by (simp add: file_name_def ex_r0_def ex_config_def)
  with h(1) have "h = empty_h5\<lparr>point_cloud_slot := Some \<lparr>dims = (2, 3, 2),
            elems = [[[0, 1], [0, 0], [0, 0]], [[0, 2], [0, 0], [0, 0]]]\<rparr>\<rparr>"
    using map_upd_eqD1 by fastforce
  with h(2) have s: "slots_hold ex_r0 (empty_h5\<lparr>point_cloud_slot := Some \<lparr>dims = (2, 3, 2),
            elems = [[[0, 1], [0, 0], [0, 0]], [[0, 2], [0, 0], [0, 0]]]\<rparr>\<rparr>) 2"
    by (simp add: numeral_2_eq_2)
  from t [THEN conjunct2, THEN conjunct2, THEN conjunct1]
  have pre: "\<forall>m < length [ex_call 1, ex_call 2].
      snd (snd (run_reports ex_ext (take m [ex_call 1, ex_call 2]) (ex_r0, Map.empty)))
        = Map.empty" .
  have "(1::nat) < length [ex_call 1, ex_call 2]" by simp
  with pre
  have "snd (snd (run_reports ex_ext (take 1 [ex_call 1, ex_call 2]) (ex_r0, Map.empty)))
                 = Map.empty"
    by blast
  then have p: "snd (snd (run_reports ex_ext [ex_call 1] (ex_r0, Map.empty))) = Map.empty"
    by simp
  show ?thesis using ex_r0_reset 2 3 ex_run_2 [of Map.empty] s p ex_run_3 [of Map.empty] by simp
qed




text \<open>
  C4. With a batch size of 0 no run of report calls, of any length and whatever its
  calls return, writes to the file system, from any accumulator whose counter is not
  negative, and so from the reporter that the constructor returns. For any batch size, a call of \<open>report\<close> whose
  counter, once incremented, differs from the batch size leaves the file system as it
  was: the frames collected so far are written by no such call.
\<close>

theorem no_flush_without_full_batch:
  "(frames_per_h5 (cfg r0) = 0 \<and> 0 \<le> num_frames r0 \<longrightarrow>
      snd (snd (run_reports ext calls (r0, fs))) = fs)
   \<and> (OfflineReporter_init ext c = Inr rc \<and> frames_per_h5 c = 0 \<longrightarrow>
      snd (snd (run_reports ext calls (rc, fs))) = fs)
   \<and> (num_frames r + 1 \<noteq> frames_per_h5 (cfg r) \<longrightarrow>
      snd (snd (report ext fault sim st (r, fs))) = fs)"
proof (intro conjI impI)
  assume "frames_per_h5 (cfg r0) = 0 \<and> 0 \<le> num_frames r0"
  then show "snd (snd (run_reports ext calls (r0, fs))) = fs"
    by (intro run_reports_no_flush) auto
next
  assume a: "OfflineReporter_init ext c = Inr rc \<and> frames_per_h5 c = 0"
  then have "cfg rc = c" "reset_state rc" using OfflineReporter_init_Inr by blast+
  with a have "frames_per_h5 (cfg rc) = 0" "num_frames rc = 0" by (simp_all add: reset_state_def)
  then show "snd (snd (run_reports ext calls (rc, fs))) = fs"
    by (intro run_reports_no_flush) auto
next
  assume nf: "num_frames r + 1 \<noteq> frames_per_h5 (cfg r)"
  obtain e r2 fs2 where rep: "report ext fault sim st (r, fs) = (e, (r2, fs2))"
    by (cases "report ext fault sim st (r, fs)") auto
  from report_no_flush(1) [OF rep nf] rep
  show "snd (snd (report ext fault sim st (r, fs))) = fs" by simp
qed

theorem no_flush_without_full_batch_witness:
  "frames_per_h5 (cfg (ex_r0\<lparr>cfg := ex_config\<lparr>frames_per_h5 := 0\<rparr>\<rparr>)) = 0
   \<and> 0 \<le> num_frames (ex_r0\<lparr>cfg := ex_config\<lparr>frames_per_h5 := 0\<rparr>\<rparr>)
   \<and> snd (snd (run_reports ex_ext [ex_call 1, ex_call 2, ex_call 3]
         (ex_r0\<lparr>cfg := ex_config\<lparr>frames_per_h5 := 0\<rparr>\<rparr>, Map.empty))) = Map.empty
   \<and> num_frames ex_r0 + 1 \<noteq> frames_per_h5 (cfg ex_r0)
   \<and> snd (snd (report ex_ext None ex_sim (ex_state 1) (ex_r0, Map.empty))) = Map.empty"
  using no_flush_without_full_batch [of "ex_r0\<lparr>cfg := ex_config\<lparr>frames_per_h5 := 0\<rparr>\<rparr>"
      ex_ext "[ex_call 1, ex_call 2, ex_call 3]" Map.empty ex_config ex_r0 ex_r0 None ex_sim
      "ex_state 1"]
  by (simp add: ex_r0_def ex_config_def)


subsection \<open>The point cloud\<close>

lemma keeps_pc_collect_contacts: "keeps point_cloud_data (collect_contacts ext p)"
proof -
  have 1: "keeps point_cloud_data (append_rows v)" for v
    by (rule keepsI) (simp add: append_rows_def split: option.splits)
  have 2: "keeps point_cloud_data (append_cols v)" for v
    by (rule keepsI) (simp add: append_cols_def split: option.splits)
  have 3: "keeps point_cloud_data (collect_fraction_of_contacts ext cm)" for cm
    by (rule keepsI)
       (simp add: collect_fraction_of_contacts_def split: option.splits sum.splits)
  show ?thesis
    unfolding collect_contacts_def collect_contact_map_def
    by (intro keeps_py_if keeps_case_sum keeps_andthen 1 2 3)
qed

lemma keeps_pc_collect_rmsd: "keeps point_cloud_data (collect_rmsd ext p)"
  by (rule keepsI) (simp add: collect_rmsd_def split: option.splits sum.splits)

lemma collect_point_cloud_data:
  assumes "collect ext p r = (None, r')" and "point_cloud (cfg r)"
    and "point_cloud_data r = Some (PcList xs)"
  shows "point_cloud_data r' = Some (PcList (xs @ [p]))"
proof -
  from assms(1) obtain ra rb where
    1: "collect_contacts ext p r = (None, ra)" and
    2: "py_if (\<lambda>r. point_cloud (cfg r)) (collect_point_cloud p) ra = (None, rb)" and
    3: "py_if (\<lambda>r. reference_positions r \<noteq> None) (collect_rmsd ext p) rb = (None, r')"
    by (auto simp: collect_def andthen_None)
  have "fixed_part ra = fixed_part r"
    using keepsD [OF keeps_collect_contacts 1] by simp
  then have "point_cloud (cfg ra)" using assms(2) by (simp add: fixed_part_def)
  then have "collect_point_cloud p ra = (None, rb)" using 2 by (simp add: py_if_True)
  moreover have "point_cloud_data ra = Some (PcList xs)"
    using keepsD [OF keeps_pc_collect_contacts 1] assms(3) by simp
  ultimately have "point_cloud_data rb = Some (PcList (xs @ [p]))"
    by (auto simp: collect_point_cloud_None)
  then show ?thesis using keepsD [OF keeps_py_if [OF keeps_pc_collect_rmsd] 3] by simp
qed

text \<open>
  C7. When the point cloud is enabled and a call of \<open>report\<close> flushes, the point-cloud
  slot of the written file is an array of shape (n, 3, m), for the n frames of the batch
  (the buffered ones and the frame of this call) of m selected atoms each, and its entry
  [f, c, a] is coordinate c of atom a in frame f as collected.
\<close>

theorem point_cloud_written_transposed:
  assumes "point_cloud (cfg r)" and "point_cloud_data r = Some (PcList frames)"
    and "num_frames r + 1 = frames_per_h5 (cfg r)"
    and "report ext fault sim st (r, fs) = (None, (r', fs'))"
  shows "\<exists>positions a h.
           select_positions ext (cfg r) sim st = Inr positions
         \<and> fs' (file_name r) = Some h \<and> point_cloud_slot h = Some a
         \<and> dims a = (length frames + 1, 3, length positions)
         \<and> (\<forall>fr \<in> set frames. length fr = length positions)
         \<and> (\<forall>f < length frames + 1. \<forall>c < 3. \<forall>i < length positions.
               elems a ! f ! c ! i = coord c ((frames @ [positions]) ! f ! i))"
  using assms(4)
proof (cases rule: report_cases)
  case (no_flush p r1)
  then show ?thesis using assms(3) by simp
next
  case (flushed p r1 r3)
  define r2 where "r2 = r1\<lparr>num_frames := num_frames r + 1\<rparr>"
  define batch where "batch = frames @ [p]"
  have f: "flush fault (r2, fs) = (None, (r3, fs'))" using flushed(4) by (simp add: r2_def)
  have fp: "fixed_part r2 = fixed_part r"
    using collect_keeps(1) [OF flushed(2)] by (simp add: r2_def)
  have pc2: "point_cloud_data r2 = Some (PcList batch)"
    using collect_point_cloud_data [OF flushed(2) assms(1,2)] by (simp add: r2_def batch_def)
  have en: "point_cloud (cfg r2)" using fixed_part_cfg [OF fp] assms(1) by simp
  from flush_None [OF f] obtain h where
    fb: "flush_body fault (r2, empty_h5) = (None, (r3, h))" and
    fs': "fs' = fs(file_name r2 \<mapsto> h)"
    by blast
  from flush_body_None(5) [OF fb en] pc2 obtain a where
    a: "np_transpose_021 (PcList batch) = Inr a" "point_cloud_slot h = Some a"
    by auto
  note t = np_transpose_PcList [OF a(1)]
  have same: "\<forall>g \<in> set batch. length g = length p"
  proof -
    have "p \<in> set batch" by (simp add: batch_def)
    with t(2) have "length p = length (hd batch)" by blast
    with t(2) show ?thesis by simp
  qed
  then have hd: "length (hd batch) = length p" using t(1) by simp
  have 1: "fs' (file_name r) = Some h" using fs' fixed_part_file_name [OF fp] by simp
  have 2: "dims a = (length frames + 1, 3, length p)" using t(3) hd by (simp add: batch_def)
  have 3: "\<forall>fr \<in> set frames. length fr = length p" using same by (simp add: batch_def)
  have 4: "\<forall>f < length frames + 1. \<forall>c < 3. \<forall>i < length p.
               elems a ! f ! c ! i = coord c ((frames @ [p]) ! f ! i)"
  proof (intro allI impI)
    fix f c i :: nat
    assume b: "f < length frames + 1" "c < 3" "i < length p"
    then have "f < length batch" by (simp add: batch_def)
    moreover from this same have "length (batch ! f) = length p" by simp
    ultimately have "elems a ! f ! c ! i = coord c (batch ! f ! i)"
      using b by (intro np_transpose_PcList_entry [OF a(1)]) simp_all
    then show "elems a ! f ! c ! i = coord c ((frames @ [p]) ! f ! i)" by (simp add: batch_def)
  qed
  show ?thesis using flushed(1) 1 a(2) 2 3 4 by blast
qed simp_all

theorem point_cloud_written_transposed_witness:
  "point_cloud (cfg (ex_r0\<lparr>num_frames := 1,
       point_cloud_data := Some (PcList [[(0, 0, 0), (1, 0, 0)]])\<rparr>))
   \<and> num_frames (ex_r0\<lparr>num_frames := 1,
       point_cloud_data := Some (PcList [[(0, 0, 0), (1, 0, 0)]])\<rparr>) + 1 = frames_per_h5 ex_config
   \<and> report ex_ext None ex_sim (ex_state 2)
       (ex_r0\<lparr>num_frames := 1,
              point_cloud_data := Some (PcList [[(0, 0, 0), (1, 0, 0)]])\<rparr>, Map.empty) =
       (None, (ex_r0,
         [''out.h5'' \<mapsto> empty_h5\<lparr>point_cloud_slot := Some \<lparr>dims = (2, 3, 2),
            elems = [[[0, 1], [0, 0], [0, 0]], [[0, 2], [0, 0], [0, 0]]]\<rparr>\<rparr>]))
   \<and> (\<exists>a :: int ndarray3. dims a = (2, 3, 2) \<and> elems a ! 1 ! 0 ! 1 = 2)"
proof -
  define r where "r = ex_r0\<lparr>num_frames := 1,
       point_cloud_data := Some (PcList [[(0, 0, 0), (1, 0, 0)]])\<rparr>"
  have 1: "point_cloud (cfg r)" by (simp add: r_def ex_r0_def ex_config_def)
  have 2: "point_cloud_data r = Some (PcList [[(0, 0, 0), (1, 0, 0)]])" by (simp add: r_def)
  have 3: "num_frames r + 1 = frames_per_h5 (cfg r)" by (simp add: r_def ex_r0_def ex_config_def)
  have 4: "report ex_ext None ex_sim (ex_state 2) (r, Map.empty) =
       (None, (ex_r0,
         [''out.h5'' \<mapsto> empty_h5\<lparr>point_cloud_slot := Some \<lparr>dims = (2, 3, 2),
            elems = [[[0, 1], [0, 0], [0, 0]], [[0, 2], [0, 0], [0, 0]]]\<rparr>\<rparr>]))"
    unfolding r_def by (rule ex_report_2)
  have s: "select_positions ex_ext (cfg r) ex_sim (ex_state 2) = Inr [(0, 0, 0), (2, 0, 0)]"
    by (simp add: ex_select_positions r_def ex_r0_def ex_config_def)
  from point_cloud_written_transposed [OF 1 2 3 4] s obtain a :: "int ndarray3" where
    a: "dims a = (length [[(0, 0, 0), (1, 0, 0 :: int)]] + 1, 3, length [(0, 0, 0), (2, 0, 0 :: int)])"
    "\<forall>f < length [[(0, 0, 0), (1, 0, 0 :: int)]] + 1. \<forall>c < 3.
       \<forall>i < length [(0, 0, 0), (2, 0, 0 :: int)].
       elems a ! f ! c ! i
         = coord c (([[(0, 0, 0), (1, 0, 0)]] @ [[(0, 0, 0), (2, 0, 0)]]) ! f ! i)"
    by auto
  have "dims a = (2, 3, 2)" using a(1) by simp
  moreover have "elems a ! 1 ! 0 ! 1 = coord 0 (([[(0, 0, 0), (1, 0, 0)]]
                    @ [[(0, 0, 0), (2, 0, 0 :: int)]]) ! 1 ! 1)"
    using a(2) by simp
  then have "elems a ! 1 ! 0 ! 1 = 2" by (simp add: coord_def vec3_list_def)
  ultimately have "\<exists>a :: int ndarray3. dims a = (2, 3, 2) \<and> elems a ! 1 ! 0 ! 1 = 2" by blast
  then show ?thesis using 1 3 4 by (simp add: r_def ex_r0_def)
qed


subsection \<open>The output path\<close>

lemma run_reports_keeps:
  assumes "run_reports ext calls (r, fs) = (e, (r', fs'))"
  shows "fixed_part r' = fixed_part r \<and> (\<forall>p. p \<noteq> file_name r \<longrightarrow> fs' p = fs p)"
  using assms
proof (induction calls arbitrary: r fs)
  case Nil
  then show ?case by simp
next
  case (Cons c calls)
  obtain fault sim st where c: "c = (fault, sim, st)" by (cases c)
  obtain e1 r1 fs1 where rep: "report ext fault sim st (r, fs) = (e1, (r1, fs1))"
    by (cases "report ext fault sim st (r, fs)") auto
  have fp: "fixed_part r1 = fixed_part r" using rep by (rule report_fixed_part)
  have op: "\<forall>p. p \<noteq> file_name r \<longrightarrow> fs1 p = fs p"
    using report_other_paths [OF rep] by blast
  show ?case
  proof (cases e1)
    case (Some x)
    then have "r' = r1" "fs' = fs1" using Cons.prems run_reports_Cons [OF rep, of calls] c by simp_all
    then show ?thesis using fp op by simp
  next
    case None
    then have "run_reports ext calls (r1, fs1) = (e, (r', fs'))"
      using Cons.prems run_reports_Cons [OF rep, of calls] c by simp
    from Cons.IH [OF this] show ?thesis
      using fp op fixed_part_file_name [OF fp] by simp
  qed
qed

lemma flush_fs_independent:
  assumes "flush fault (r, fs) = (None, (r', fs'))"
  shows "\<exists>h. fs' = fs(file_name r \<mapsto> h)
             \<and> (\<forall>fs0. flush fault (r, fs0) = (None, (r', fs0(file_name r \<mapsto> h))))"
  using assms
  by (auto simp: flush_def split: if_splits option.splits prod.splits)

lemma report_fs_independent:
  assumes "report ext fault sim st (r, fs) = (None, (r', fs'))"
    and "num_frames r + 1 = frames_per_h5 (cfg r)"
  shows "\<exists>h. fs' = fs(file_name r \<mapsto> h)
             \<and> (\<forall>fs0. report ext fault sim st (r, fs0) = (None, (r', fs0(file_name r \<mapsto> h))))"
  using assms(1)
proof (cases rule: report_cases)
  case (no_flush p r1)
  then show ?thesis using assms(2) by simp
next
  case (flushed p r1 r3)
  define r2 where "r2 = r1\<lparr>num_frames := num_frames r + 1\<rparr>"
  have f: "flush fault (r2, fs) = (None, (r3, fs'))" using flushed(4) by (simp add: r2_def)
  have fp: "fixed_part r2 = fixed_part r"
    using collect_keeps(1) [OF flushed(2)] by (simp add: r2_def)
  note k = collect_keeps(2,3) [OF flushed(2)]
  from flush_fs_independent [OF f] obtain h where
    h: "fs' = fs(file_name r2 \<mapsto> h)"
       "\<forall>fs0. flush fault (r2, fs0) = (None, (r3, fs0(file_name r2 \<mapsto> h)))"
    by blast
  have fn: "file_name r2 = file_name r" using fp by (rule fixed_part_file_name)
  have "report ext fault sim st (r, fs0) = (None, (r', fs0(file_name r \<mapsto> h)))" for fs0
  proof -
    have "flush fault (r1\<lparr>num_frames := num_frames r + 1\<rparr>, fs0)
            = (None, (r3, fs0(file_name r \<mapsto> h)))"
      using h(2) fn by (simp add: r2_def)
    then show ?thesis
      using flushed(1,2,3,6) k by (simp add: report_def Let_def)
  qed
  then show ?thesis using h(1) fn by auto
qed simp_all

text \<open>
  C9. A call of \<open>report\<close> changes neither the file index nor the base name, and leaves every
  file but the one named by the base name with the suffix \<open>.h5\<close> as it was. When it
  flushes, that file becomes a file that does not depend on what the file system held
  before: whatever an earlier flush wrote there is replaced. Along any run from
  construction the file index stays 0 and no other path is written.
\<close>

theorem flush_rewrites_single_file:
  assumes "report ext fault sim st (r, fs) = (e, (r', fs'))"
  shows "file_idx r' = file_idx r \<and> base_name (cfg r') = base_name (cfg r)
       \<and> (\<forall>p. p \<noteq> base_name (cfg r) @ ''.h5'' \<longrightarrow> fs' p = fs p)
       \<and> (e = None \<and> num_frames r + 1 = frames_per_h5 (cfg r) \<longrightarrow>
            (\<exists>h. fs' = fs(base_name (cfg r) @ ''.h5'' \<mapsto> h)
               \<and> (\<forall>fs0. report ext fault sim st (r, fs0)
                           = (None, (r', fs0(base_name (cfg r) @ ''.h5'' \<mapsto> h))))))
       \<and> (OfflineReporter_init ext c = Inr r0
            \<and> run_reports ext calls (r0, fs0) = (en, (rn, fsn)) \<longrightarrow>
            file_idx r0 = 0 \<and> file_idx rn = 0 \<and> base_name (cfg rn) = base_name c
            \<and> (\<forall>p. p \<noteq> base_name c @ ''.h5'' \<longrightarrow> fsn p = fs0 p))"
proof -
  have fp: "fixed_part r' = fixed_part r" using assms by (rule report_fixed_part)
  then have 1: "file_idx r' = file_idx r" "base_name (cfg r') = base_name (cfg r)"
    by (simp_all add: fixed_part_def)
  have 2: "\<forall>p. p \<noteq> base_name (cfg r) @ ''.h5'' \<longrightarrow> fs' p = fs p"
    using report_other_paths [OF assms] by (simp add: file_name_def)
  have 3: "\<exists>h. fs' = fs(base_name (cfg r) @ ''.h5'' \<mapsto> h)
               \<and> (\<forall>fs0. report ext fault sim st (r, fs0)
                           = (None, (r', fs0(base_name (cfg r) @ ''.h5'' \<mapsto> h))))"
    if "e = None \<and> num_frames r + 1 = frames_per_h5 (cfg r)"
    using report_fs_independent [of ext fault sim st r fs r' fs'] assms that
    by (simp add: file_name_def)
  have 4: "file_idx r0 = 0 \<and> file_idx rn = 0 \<and> base_name (cfg rn) = base_name c
            \<and> (\<forall>p. p \<noteq> base_name c @ ''.h5'' \<longrightarrow> fsn p = fs0 p)"
    if "OfflineReporter_init ext c = Inr r0 \<and> run_reports ext calls (r0, fs0) = (en, (rn, fsn))"
  proof -
    from that have i: "cfg r0 = c" "file_idx r0 = 0"
      using OfflineReporter_init_Inr(2,3) by blast+
    from that run_reports_keeps [of ext calls r0 fs0 en rn fsn]
    have k: "fixed_part rn = fixed_part r0" "\<forall>p. p \<noteq> file_name r0 \<longrightarrow> fsn p = fs0 p"
      by simp_all
    show ?thesis using i k by (simp add: fixed_part_def file_name_def)
  qed
  show ?thesis using 1 2 3 4 by blast
qed

theorem flush_rewrites_single_file_witness:
  "report ex_ext None ex_sim (ex_state 2)
       (ex_r0\<lparr>num_frames := 1,
              point_cloud_data := Some (PcList [[(0, 0, 0), (1, 0, 0)]])\<rparr>,
        [''out.h5'' \<mapsto> empty_h5\<lparr>rmsd_slot := Some [5]\<rparr>, ''other.h5'' \<mapsto> empty_h5]) =
       (None, (ex_r0,
         [''out.h5'' \<mapsto> empty_h5\<lparr>rmsd_slot := Some [5]\<rparr>, ''other.h5'' \<mapsto> empty_h5]
           (''out.h5'' \<mapsto> empty_h5\<lparr>point_cloud_slot := Some \<lparr>dims = (2, 3, 2),
              elems = [[[0, 1], [0, 0], [0, 0]], [[0, 2], [0, 0], [0, 0]]]\<rparr>\<rparr>)))
   \<and> file_idx ex_r0 = 0
   \<and> OfflineReporter_init ex_ext ex_config = Inr ex_r0
   \<and> base_name (cfg ex_r0) @ ''.h5'' = ''out.h5''
   \<and> (\<exists>h. \<forall>fs0. report ex_ext None ex_sim (ex_state 2)
                (ex_r0\<lparr>num_frames := 1,
                       point_cloud_data := Some (PcList [[(0, 0, 0), (1, 0, 0)]])\<rparr>, fs0)
            = (None, (ex_r0, fs0(''out.h5'' \<mapsto> h))))"
proof -
  define r where "r = ex_r0\<lparr>num_frames := 1,
       point_cloud_data := Some (PcList [[(0, 0, 0), (1, 0, 0)]])\<rparr>"
  define fs :: "int filesystem" where
    "fs = [''out.h5'' \<mapsto> empty_h5\<lparr>rmsd_slot := Some [5]\<rparr>, ''other.h5'' \<mapsto> empty_h5]"
  have rep: "report ex_ext None ex_sim (ex_state 2) (r, fs) =
       (None, (ex_r0, fs(''out.h5'' \<mapsto> empty_h5\<lparr>point_cloud_slot := Some \<lparr>dims = (2, 3, 2),
              elems = [[[0, 1], [0, 0], [0, 0]], [[0, 2], [0, 0], [0, 0]]]\<rparr>\<rparr>)))"
    unfolding r_def by (rule ex_report_2)
  have n: "num_frames r + 1 = frames_per_h5 (cfg r)" by (simp add: r_def ex_r0_def ex_config_def)
  have b: "base_name (cfg r) @ ''.h5'' = ''out.h5''" by (simp add: r_def ex_r0_def ex_config_def)
  note t = flush_rewrites_single_file [OF rep, of ex_config ex_r0 "[]" Map.empty None ex_r0
      Map.empty, unfolded b]
  from t n have "\<exists>h. \<forall>fs0. report ex_ext None ex_sim (ex_state 2) (r, fs0)
            = (None, (ex_r0, fs0(''out.h5'' \<mapsto> h)))"
    by blast
  moreover from t ex_init have "file_idx ex_r0 = 0" by simp
  moreover have "base_name (cfg ex_r0) @ ''.h5'' = ''out.h5''"
    by (simp add: ex_r0_def ex_config_def)
  ultimately show ?thesis using rep ex_init unfolding r_def fs_def by simp
qed


subsection \<open>A flush that fails\<close>

lemma andthen_cases:
  assumes "andthen f g s = (e, s'')"
  shows "(\<exists>err. f s = (Some err, s'') \<and> e = Some err) \<or> (\<exists>s'. f s = (None, s') \<and> g s' = (e, s''))"
proof -
  obtain e1 s1 where f: "f s = (e1, s1)" by (cases "f s")
  show ?thesis using assms f by (cases e1) (auto simp: andthen_def)
qed

lemma stage_contact_map_result:
  assumes "py_if (\<lambda>s. contact_map (cfg (fst s))) (flush_contact_map fault) (r, h) = (e, (r', h'))"
  shows "r' = r" and "e = Some IOError \<Longrightarrow> fault = Some AtContactMap"
  using assms
  by (auto simp: py_if_def flush_contact_map_def io_write_def split: if_splits option.splits)

lemma stage_rmsd_result:
  assumes "py_if (\<lambda>s. reference_positions (fst s) \<noteq> None) (flush_rmsd fault) (r, h)
             = (e, (r', h'))"
  shows "r' = r" and "e = Some IOError \<Longrightarrow> fault = Some AtRmsd"
  using assms
  by (auto simp: py_if_def flush_rmsd_def io_write_def split: if_splits option.splits)

lemma stage_fraction_result:
  assumes "py_if (\<lambda>s. fraction_of_contacts (cfg (fst s))) (flush_fraction_of_contacts fault) (r, h)
             = (e, (r', h'))"
  shows "r' = r" and "e = Some IOError \<Longrightarrow> fault = Some AtFraction"
  using assms
  by (auto simp: py_if_def flush_fraction_of_contacts_def io_write_def
      split: if_splits option.splits)

lemma np_transpose_021_not_IOError: "np_transpose_021 buf \<noteq> Inl IOError"
  by (cases buf) (auto simp: np_transpose_021_def np_array_def split: list.splits sum.splits)

text \<open>
  What the point-cloud stage leaves: the object as it was, or the object with the list of
  frames replaced by its transposed array.
\<close>

lemma stage_point_cloud_result:
  assumes "py_if (\<lambda>s. point_cloud (cfg (fst s))) (flush_point_cloud fault) (r, h) = (e, (r', h'))"
  shows "e = Some IOError \<Longrightarrow>
           fault = Some AtPointCloud \<and> point_cloud (cfg r) \<and>
           (\<exists>buf a. point_cloud_data r = Some buf \<and> np_transpose_021 buf = Inr a \<and>
              r' = r\<lparr>point_cloud_data := Some (PcArray a)\<rparr>)"
    and "e = None \<Longrightarrow>
           (if point_cloud (cfg r)
            then \<exists>buf a. point_cloud_data r = Some buf \<and> np_transpose_021 buf = Inr a \<and>
                   r' = r\<lparr>point_cloud_data := Some (PcArray a)\<rparr>
            else r' = r)"
  using assms np_transpose_021_not_IOError
  by (auto simp: py_if_def flush_point_cloud_def io_write_def
      split: if_splits option.splits sum.splits)

lemma flush_body_IOError:
  assumes "flush_body fault (r, h0) = (e, (r', h))" and "e = Some IOError \<or> e = None"
  shows "(e = Some IOError \<and> fault = Some AtContactMap \<and> r' = r)
       \<or> ((e = None \<or> fault = Some AtPointCloud \<or> fault = Some AtRmsd \<or> fault = Some AtFraction) \<and>
           (if point_cloud (cfg r)
            then \<exists>buf a. point_cloud_data r = Some buf \<and> np_transpose_021 buf = Inr a \<and>
                   r' = r\<lparr>point_cloud_data := Some (PcArray a)\<rparr>
            else r' = r))"
proof -
  let ?S1 = "py_if (\<lambda>s. contact_map (cfg (fst s))) (flush_contact_map fault)"
  let ?S2 = "py_if (\<lambda>s. point_cloud (cfg (fst s))) (flush_point_cloud fault)"
  let ?S3 = "py_if (\<lambda>s. reference_positions (fst s) \<noteq> None) (flush_rmsd fault)"
  let ?S4 = "py_if (\<lambda>s. fraction_of_contacts (cfg (fst s))) (flush_fraction_of_contacts fault)"
  let ?T = "\<lambda>x. if point_cloud (cfg r)
            then \<exists>buf a. point_cloud_data r = Some buf \<and> np_transpose_021 buf = Inr a \<and>
                   x = r\<lparr>point_cloud_data := Some (PcArray a)\<rparr>
            else x = r"
  have body: "andthen ?S1 (andthen ?S2 (andthen ?S3 ?S4)) (r, h0) = (e, (r', h))"
    using assms(1) by (simp add: flush_body_def)
  from andthen_cases [OF body] show ?thesis
  proof (elim disjE exE conjE)
    fix err assume a: "?S1 (r, h0) = (Some err, (r', h))" "e = Some err"
    with assms(2) have "e = Some IOError" by auto
    with a stage_contact_map_result [OF a(1)] show ?thesis by auto
  next
    fix s1 assume a: "?S1 (r, h0) = (None, s1)"
      and rest: "andthen ?S2 (andthen ?S3 ?S4) s1 = (e, (r', h))"
    obtain r1 h1 where s1: "s1 = (r1, h1)" by (cases s1)
    have r1: "r1 = r" using stage_contact_map_result(1) [OF a [unfolded s1]] .
    from andthen_cases [OF rest] show ?thesis
    proof (elim disjE exE conjE)
      fix err assume b: "?S2 s1 = (Some err, (r', h))" "e = Some err"
      with assms(2) have e: "e = Some IOError" by auto
      from stage_point_cloud_result(1) [OF b(1) [unfolded s1 r1]] e b(2)
      show ?thesis by auto
    next
      fix s2 assume b: "?S2 s1 = (None, s2)"
        and rest2: "andthen ?S3 ?S4 s2 = (e, (r', h))"
      obtain r2 h2 where s2: "s2 = (r2, h2)" by (cases s2)
      have r2: "?T r2" using stage_point_cloud_result(2) [OF b [unfolded s1 r1 s2]] by simp
      from andthen_cases [OF rest2] show ?thesis
      proof (elim disjE exE conjE)
        fix err assume c: "?S3 s2 = (Some err, (r', h))" "e = Some err"
        with assms(2) have e: "e = Some IOError" by auto
        from stage_rmsd_result [OF c(1) [unfolded s2]] e c(2) r2
        show ?thesis by auto
      next
        fix s3 assume c: "?S3 s2 = (None, s3)" and d: "?S4 s3 = (e, (r', h))"
        obtain r3 h3 where s3: "s3 = (r3, h3)" by (cases s3)
        have r3: "r3 = r2" using stage_rmsd_result(1) [OF c [unfolded s2 s3]] .
        from stage_fraction_result [OF d [unfolded s3]] assms(2) r3 r2
        show ?thesis by auto
      qed
    qed
  qed
qed

lemma flush_IOError:
  assumes "flush fault (r, fs) = (Some IOError, (r', fs'))"
  shows "((fault = Some AtOpen \<or> fault = Some AtContactMap) \<and> r' = r)
       \<or> (fault \<noteq> Some AtOpen \<and> fault \<noteq> Some AtContactMap \<and>
           (if point_cloud (cfg r)
            then \<exists>buf a. point_cloud_data r = Some buf \<and> np_transpose_021 buf = Inr a \<and>
                   r' = r\<lparr>point_cloud_data := Some (PcArray a)\<rparr>
            else r' = r))"
proof (cases "fault = Some AtOpen")
  case True
  then show ?thesis using assms by (simp add: flush_def)
next
  case False
  obtain e1 r1 h1 where b: "flush_body fault (r, empty_h5) = (e1, (r1, h1))"
    by (cases "flush_body fault (r, empty_h5)") auto
  have e1: "e1 = Some IOError \<or> (e1 = None \<and> fault = Some AtClose)" and r': "r' = r1"
    using assms b False by (auto simp: flush_def split: if_splits option.splits)
  then have "e1 = Some IOError \<or> e1 = None" by auto
  from flush_body_IOError [OF b this] e1 r' False show ?thesis by auto
qed


text \<open>
  C6, as the code has it. When the container raises \<open>IOError\<close> during the flush of a call
  of \<open>report\<close>, the call raises it (nothing is retried and the accumulator is not reset),
  and the frame counter and the contact-map, RMSD and fraction-of-contacts buffers are
  as they were when the flush began. The object as a whole is as it was then when the
  point cloud is disabled or the failure is at the opening of the file or at the
  contact-map write; otherwise the point-cloud buffer is no longer the list of frames but
  the transposed array of the same frames, and nothing else has changed.
\<close>

theorem failed_flush_state:
  assumes "select_positions ext (cfg r) sim st = Inr p"
    and "collect ext p r = (None, r1)"
    and "num_frames r + 1 = frames_per_h5 (cfg r)"
    and "flush fault (r1\<lparr>num_frames := num_frames r + 1\<rparr>, fs) = (Some IOError, (r', fs'))"
  shows "report ext fault sim st (r, fs) = (Some IOError, (r', fs'))
       \<and> scalar_buffers r' = scalar_buffers (r1\<lparr>num_frames := num_frames r + 1\<rparr>)
       \<and> ((\<not> point_cloud (cfg r) \<or> fault = Some AtOpen \<or> fault = Some AtContactMap) \<longrightarrow>
            r' = r1\<lparr>num_frames := num_frames r + 1\<rparr>)
       \<and> (point_cloud (cfg r) \<and> fault \<noteq> Some AtOpen \<and> fault \<noteq> Some AtContactMap \<longrightarrow>
            (\<exists>buf a. point_cloud_data r1 = Some buf \<and> np_transpose_021 buf = Inr a \<and>
               r' = r1\<lparr>num_frames := num_frames r + 1,
                        point_cloud_data := Some (PcArray a)\<rparr>))"
proof -
  define r2 where "r2 = r1\<lparr>num_frames := num_frames r + 1\<rparr>"
  have f: "flush fault (r2, fs) = (Some IOError, (r', fs'))" using assms(4) by (simp add: r2_def)
  note k = collect_keeps [OF assms(2)]
  have cfg2: "cfg r2 = cfg r" using k(3) by (simp add: r2_def)
  have 1: "report ext fault sim st (r, fs) = (Some IOError, (r', fs'))"
    using assms k by (simp add: report_def Let_def)
  have 2: "scalar_buffers r' = scalar_buffers r2" using f by (rule flush_keeps(2))
  note c = flush_IOError [OF f, unfolded cfg2]
  have 3: "r' = r2"
    if "\<not> point_cloud (cfg r) \<or> fault = Some AtOpen \<or> fault = Some AtContactMap"
    using c that by (cases "point_cloud (cfg r)") auto
  have 4: "\<exists>buf a. point_cloud_data r1 = Some buf \<and> np_transpose_021 buf = Inr a \<and>
               r' = r1\<lparr>num_frames := num_frames r + 1, point_cloud_data := Some (PcArray a)\<rparr>"
    if "point_cloud (cfg r) \<and> fault \<noteq> Some AtOpen \<and> fault \<noteq> Some AtContactMap"
  proof -
    from c that obtain buf a where
      "point_cloud_data r2 = Some buf" "np_transpose_021 buf = Inr a"
      "r' = r2\<lparr>point_cloud_data := Some (PcArray a)\<rparr>"
      by auto
    then show ?thesis by (auto simp: r2_def)
  qed
  show ?thesis using 1 2 3 4 unfolding r2_def by blast
qed

lemma ex_select_2:
  "select_positions ex_ext
     (cfg (ex_r0\<lparr>num_frames := 1, point_cloud_data := Some (PcList [[(0, 0, 0), (1, 0, 0)]])\<rparr>))
     ex_sim (ex_state 2) = Inr [(0, 0, 0), (2, 0, 0)]"
  by (simp add: ex_select_positions ex_r0_def ex_config_def)

lemma ex_collect_2:
  "collect ex_ext [(0, 0, 0), (2, 0, 0)]
     (ex_r0\<lparr>num_frames := 1, point_cloud_data := Some (PcList [[(0, 0, 0), (1, 0, 0)]])\<rparr>)
   = (None, ex_r0\<lparr>num_frames := 1,
        point_cloud_data := Some (PcList [[(0, 0, 0), (1, 0, 0)], [(0, 0, 0), (2, 0, 0)]])\<rparr>)"
  by (simp add: ex_collect ex_r0_def)

lemma ex_flush_fails:
  "flush (Some AtPointCloud) (ex_r0\<lparr>num_frames := 2,
       point_cloud_data := Some (PcList [[(0, 0, 0), (1, 0, 0)], [(0, 0, 0), (2, 0, 0)]])\<rparr>, fs) =
     (Some IOError, (ex_r0\<lparr>num_frames := 2,
       point_cloud_data := Some (PcArray \<lparr>dims = (2, 3, 2),
          elems = [[[0, 1], [0, 0], [0, 0]], [[0, 2], [0, 0], [0, 0]]]\<rparr>)\<rparr>,
       fs(''out.h5'' \<mapsto> empty_h5)))"
  by (simp add: flush_def flush_body_def andthen_def py_if_def flush_point_cloud_def
      np_transpose_021_def np_array_def transpose_021_def vec3_list_def io_write_def
      write_point_cloud_def file_name_def ex_r0_def ex_config_def upt_0_3 numeral_2_eq_2)

lemma ex_flush_fails_open:
  "flush (Some AtOpen) (ex_r0\<lparr>num_frames := 2,
       point_cloud_data := Some (PcList [[(0, 0, 0), (1, 0, 0)], [(0, 0, 0), (2, 0, 0)]])\<rparr>, fs) =
     (Some IOError, (ex_r0\<lparr>num_frames := 2,
       point_cloud_data := Some (PcList [[(0, 0, 0), (1, 0, 0)], [(0, 0, 0), (2, 0, 0)]])\<rparr>, fs))"
  by (simp add: flush_def)

theorem failed_flush_state_witness:
  "report ex_ext (Some AtOpen) ex_sim (ex_state 2)
     (ex_r0\<lparr>num_frames := 1, point_cloud_data := Some (PcList [[(0, 0, 0), (1, 0, 0)]])\<rparr>,
      Map.empty)
   = (Some IOError, (ex_r0\<lparr>num_frames := 2,
       point_cloud_data := Some (PcList [[(0, 0, 0), (1, 0, 0)], [(0, 0, 0), (2, 0, 0)]])\<rparr>,
       Map.empty))
   \<and> report ex_ext (Some AtPointCloud) ex_sim (ex_state 2)
     (ex_r0\<lparr>num_frames := 1, point_cloud_data := Some (PcList [[(0, 0, 0), (1, 0, 0)]])\<rparr>,
      Map.empty)
   = (Some IOError, (ex_r0\<lparr>num_frames := 2,
       point_cloud_data := Some (PcArray \<lparr>dims = (2, 3, 2),
          elems = [[[0, 1], [0, 0], [0, 0]], [[0, 2], [0, 0], [0, 0]]]\<rparr>)\<rparr>,
       [''out.h5'' \<mapsto> empty_h5]))
   \<and> scalar_buffers (ex_r0\<lparr>num_frames := 2,
       point_cloud_data := Some (PcArray \<lparr>dims = (2, 3, 2),
          elems = [[[0, 1], [0, 0], [0, 0]], [[0, 2], [0, 0], [0, 0]]]\<rparr>)\<rparr>)
     = (2, None, None, None, None)"
proof -
  define r where
    "r = ex_r0\<lparr>num_frames := 1, point_cloud_data := Some (PcList [[(0, 0, 0), (1, 0, 0)]])\<rparr>"
  define r1 where
    "r1 = ex_r0\<lparr>num_frames := 1,
        point_cloud_data := Some (PcList [[(0, 0, 0), (1, 0, 0)], [(0, 0, 0), (2, 0, 0)]])\<rparr>"
  have s: "select_positions ex_ext (cfg r) ex_sim (ex_state 2) = Inr [(0, 0, 0), (2, 0, 0)]"
    unfolding r_def by (rule ex_select_2)
  have c: "collect ex_ext [(0, 0, 0), (2, 0, 0)] r = (None, r1)"
    unfolding r_def r1_def by (rule ex_collect_2)
  have n: "num_frames r + 1 = frames_per_h5 (cfg r)" by (simp add: r_def ex_r0_def ex_config_def)
  have r2: "r1\<lparr>num_frames := num_frames r + 1\<rparr> = ex_r0\<lparr>num_frames := 2,
       point_cloud_data := Some (PcList [[(0, 0, 0), (1, 0, 0)], [(0, 0, 0), (2, 0, 0)]])\<rparr>"
    by (simp add: r_def r1_def)
  have fo: "flush (Some AtOpen) (r1\<lparr>num_frames := num_frames r + 1\<rparr>, Map.empty) =
     (Some IOError, (ex_r0\<lparr>num_frames := 2,
       point_cloud_data := Some (PcList [[(0, 0, 0), (1, 0, 0)], [(0, 0, 0), (2, 0, 0)]])\<rparr>,
       Map.empty))"
    unfolding r2 by (rule ex_flush_fails_open)
  have fp: "flush (Some AtPointCloud) (r1\<lparr>num_frames := num_frames r + 1\<rparr>, Map.empty) =
     (Some IOError, (ex_r0\<lparr>num_frames := 2,
       point_cloud_data := Some (PcArray \<lparr>dims = (2, 3, 2),
          elems = [[[0, 1], [0, 0], [0, 0]], [[0, 2], [0, 0], [0, 0]]]\<rparr>)\<rparr>,
       [''out.h5'' \<mapsto> empty_h5]))"
    unfolding r2 by (rule ex_flush_fails)
  note a = failed_flush_state [OF s c n fo]
  note b = failed_flush_state [OF s c n fp]
  from a have 1: "report ex_ext (Some AtOpen) ex_sim (ex_state 2) (r, Map.empty)
   = (Some IOError, (ex_r0\<lparr>num_frames := 2,
       point_cloud_data := Some (PcList [[(0, 0, 0), (1, 0, 0)], [(0, 0, 0), (2, 0, 0)]])\<rparr>,
       Map.empty))"
    by blast
  from b have 2: "report ex_ext (Some AtPointCloud) ex_sim (ex_state 2) (r, Map.empty)
   = (Some IOError, (ex_r0\<lparr>num_frames := 2,
       point_cloud_data := Some (PcArray \<lparr>dims = (2, 3, 2),
          elems = [[[0, 1], [0, 0], [0, 0]], [[0, 2], [0, 0], [0, 0]]]\<rparr>)\<rparr>,
       [''out.h5'' \<mapsto> empty_h5]))"
    by blast
  have 3: "scalar_buffers (ex_r0\<lparr>num_frames := 2,
       point_cloud_data := Some (PcArray \<lparr>dims = (2, 3, 2),
          elems = [[[0, 1], [0, 0], [0, 0]], [[0, 2], [0, 0], [0, 0]]]\<rparr>)\<rparr>)
     = (2, None, None, None, None)"
    by (simp add: scalar_buffers_def ex_r0_def)
  show ?thesis using 1 2 3 unfolding r_def by simp
qed

text \<open>
  C6 as the spec states it fails: with the point cloud enabled and a batch size of 2, the
  second call meets a container that fails at the point-cloud write. When the flush
  begins the point-cloud buffer is the list of the two collected frames; when \<open>report\<close>
  raises \<open>IOError\<close> it is the transposed array.
\<close>

theorem failed_flush_alters_point_cloud:
  "select_positions ex_ext
     (cfg (ex_r0\<lparr>num_frames := 1, point_cloud_data := Some (PcList [[(0, 0, 0), (1, 0, 0)]])\<rparr>))
     ex_sim (ex_state 2) = Inr [(0, 0, 0), (2, 0, 0)]
   \<and> collect ex_ext [(0, 0, 0), (2, 0, 0)]
       (ex_r0\<lparr>num_frames := 1, point_cloud_data := Some (PcList [[(0, 0, 0), (1, 0, 0)]])\<rparr>)
     = (None, ex_r0\<lparr>num_frames := 1,
          point_cloud_data := Some (PcList [[(0, 0, 0), (1, 0, 0)], [(0, 0, 0), (2, 0, 0)]])\<rparr>)
   \<and> fst (report ex_ext (Some AtPointCloud) ex_sim (ex_state 2)
       (ex_r0\<lparr>num_frames := 1, point_cloud_data := Some (PcList [[(0, 0, 0), (1, 0, 0)]])\<rparr>,
        Map.empty)) = Some IOError
   \<and> point_cloud_data (fst (snd (report ex_ext (Some AtPointCloud) ex_sim (ex_state 2)
       (ex_r0\<lparr>num_frames := 1, point_cloud_data := Some (PcList [[(0, 0, 0), (1, 0, 0)]])\<rparr>,
        Map.empty))))
     = Some (PcArray \<lparr>dims = (2, 3, 2),
          elems = [[[0, 1], [0, 0], [0, 0]], [[0, 2], [0, 0], [0, 0]]]\<rparr>)
   \<and> point_cloud_data (fst (snd (report ex_ext (Some AtPointCloud) ex_sim (ex_state 2)
       (ex_r0\<lparr>num_frames := 1, point_cloud_data := Some (PcList [[(0, 0, 0), (1, 0, 0)]])\<rparr>,
        Map.empty))))
     \<noteq> Some (PcList [[(0, 0, 0), (1, 0, 0)], [(0, 0, 0), (2, 0, 0)]])"
proof -
  have "report ex_ext (Some AtPointCloud) ex_sim (ex_state 2)
       (ex_r0\<lparr>num_frames := 1, point_cloud_data := Some (PcList [[(0, 0, 0), (1, 0, 0)]])\<rparr>,
        Map.empty)
     = (Some IOError, (ex_r0\<lparr>num_frames := 2,
       point_cloud_data := Some (PcArray \<lparr>dims = (2, 3, 2),
          elems = [[[0, 1], [0, 0], [0, 0]], [[0, 2], [0, 0], [0, 0]]]\<rparr>)\<rparr>,
       [''out.h5'' \<mapsto> empty_h5]))"
    by (simp add: report_def ex_select_positions ex_collect flush_def flush_body_def andthen_def
      py_if_def flush_point_cloud_def np_transpose_021_def np_array_def transpose_021_def
      vec3_list_def io_write_def write_point_cloud_def file_name_def Let_def
      ex_r0_def ex_config_def upt_0_3 numeral_2_eq_2)
  then show ?thesis using ex_select_2 ex_collect_2 by simp
qed

end
